theory Spec2Isabelle
  imports
    Main
    "HOL-Library.Sublist"
    "HOL-Library.List_Lexorder"
    "HOL-Library.Multiset"
    "HOL-Library.Monad_Syntax"
begin

section \<open>Python strings and bytes\<close>

text \<open>
  A Python \<open>str\<close> is the list of its Unicode code points (the integers \<open>ord\<close>
  gives), a \<open>bytes\<close> value the list of its bytes. \<open>lit\<close> gives the \<open>str\<close> of a string
  literal of the source; it is also the Latin-1 decoding of bytes. Strings compare as
  Python compares them: by code point, lexicographically, a proper prefix first (the order
  of \<open>List_Lexorder\<close>).
\<close>

type_synonym str = "int list"

type_synonym bytes = string

definition ch :: "char \<Rightarrow> int" where
  "ch c = of_char c"

definition lit :: "string \<Rightarrow> str" where
  "lit s = map ch s"

section \<open>Parsed metadata values\<close>

text \<open>
  What \<open>json.loads\<close> and \<open>tomllib.loads\<close> return: \<open>None\<close>, booleans, integers,
  floats (named by their \<open>repr\<close>), strings, lists, dictionaries with string keys (in
  insertion order) and, for TOML, dates and times (named by their text).
\<close>

datatype pv =
    PNone
  | PBool bool
  | PInt int
  | PFloat string
  | PStr str
  | PList "pv list"
  | PDict "(str \<times> pv) list"
  | PDate string

text \<open>Python truthiness: what \<open>if x\<close>, \<open>not x\<close> and \<open>x or y\<close> test.\<close>

fun truthy :: "pv \<Rightarrow> bool" where
  "truthy PNone = False"
| "truthy (PBool b) = b"
| "truthy (PInt i) = (i \<noteq> 0)"
| "truthy (PFloat r) = (r \<noteq> ''0.0'' \<and> r \<noteq> ''-0.0'')"
| "truthy (PStr s) = (s \<noteq> [])"
| "truthy (PList xs) = (xs \<noteq> [])"
| "truthy (PDict kvs) = (kvs \<noteq> [])"
| "truthy (PDate d) = True"

definition py_or :: "pv \<Rightarrow> pv \<Rightarrow> pv" where
  "py_or a b = (if truthy a then a else b)"

text \<open>\<open>d.get(key)\<close> and \<open>d.get(key, default)\<close> on a dictionary.\<close>

definition dict_get :: "(str \<times> pv) list \<Rightarrow> str \<Rightarrow> pv" where
  "dict_get d k = (case map_of d k of None \<Rightarrow> PNone | Some v \<Rightarrow> v)"

definition dict_get_default :: "(str \<times> pv) list \<Rightarrow> str \<Rightarrow> pv \<Rightarrow> pv" where
  "dict_get_default d k dflt = (case map_of d k of None \<Rightarrow> dflt | Some v \<Rightarrow> v)"

section \<open>The Python runtime\<close>

text \<open>
  What the code takes from the Python runtime and its libraries, as parameters:
  \<open>json.loads\<close> and \<open>tomllib.loads\<close> (\<open>None\<close> for the decode error they raise;
  \<open>toml_loads\<close> itself is \<open>None\<close> when neither \<open>tomllib\<close> nor \<open>tomli\<close> could be
  imported), \<open>bytes.decode('utf-8')\<close> (\<open>None\<close> for \<open>UnicodeDecodeError\<close>) and
  \<open>bytes.decode('utf-8', errors='replace')\<close>, the order in which \<open>list(set(xs))\<close>
  iterates a set built from \<open>xs\<close> (it depends on the string hashes of the process), the
  order in which \<open>as_completed\<close> yields the submitted tasks, and the Unicode database
  of the interpreter beyond ASCII: which code points from 128 on are decimal digits, which
  are whitespace, and \<open>str.lower()\<close> of a string that is not all ASCII.
\<close>

record runtime =
  json_loads :: "str \<Rightarrow> pv option"
  toml_loads :: "(str \<Rightarrow> pv option) option"
  utf8_decode :: "bytes \<Rightarrow> str option"
  utf8_decode_replace :: "bytes \<Rightarrow> str"
  set_iter :: "str list \<Rightarrow> str list"
  as_completed :: "str list \<Rightarrow> str list"
  unicode_decimal :: "int \<Rightarrow> bool"
  unicode_space :: "int \<Rightarrow> bool"
  unicode_lower :: "str \<Rightarrow> str"

text \<open>
  \<open>str.isspace\<close>, which \<open>str.strip()\<close> and the regular-expression class \<open>\s\<close> use:
  among the ASCII characters, the code points 9 to 13 and 28 to 32. The class \<open>\d\<close> of a
  pattern compiled from a \<open>str\<close> without \<open>re.ASCII\<close>: among the ASCII characters the
  ten digits, beyond them every Unicode decimal digit. \<open>str.lower()\<close> adds 32 to
  \<open>A\<close>..\<open>Z\<close> in an ASCII string.
\<close>

definition is_space :: "runtime \<Rightarrow> int \<Rightarrow> bool" where
  "is_space rt c =
     (if c < 128 then (9 \<le> c \<and> c \<le> 13) \<or> (28 \<le> c \<and> c \<le> 32) else unicode_space rt c)"

definition is_digit :: "runtime \<Rightarrow> int \<Rightarrow> bool" where
  "is_digit rt c = (if c < 128 then 48 \<le> c \<and> c \<le> 57 else unicode_decimal rt c)"

definition lower :: "runtime \<Rightarrow> str \<Rightarrow> str" where
  "lower rt s =
     (if list_all (\<lambda>c. c < 128) s
      then map (\<lambda>c. if 65 \<le> c \<and> c \<le> 90 then c + 32 else c) s
      else unicode_lower rt s)"

definition strip :: "runtime \<Rightarrow> str \<Rightarrow> str" where
  "strip rt s = rev (dropWhile (is_space rt) (rev (dropWhile (is_space rt) s)))"

text \<open>\<open>s.split(sep)\<close> for a one-character separator: never empty, \<open>''.split('.') == ['']\<close>.\<close>

fun split_on :: "int \<Rightarrow> str \<Rightarrow> str list" where
  "split_on sep [] = [[]]"
| "split_on sep (x # xs) =
     (if x = sep then [] # split_on sep xs
      else (case split_on sep xs of
              [] \<Rightarrow> [[x]]
            | w # ws \<Rightarrow> (x # w) # ws))"

text \<open>\<open>key, value = line.split(':', 1)\<close>, used where the separator occurs in the line.\<close>

definition split_first :: "int \<Rightarrow> str \<Rightarrow> str \<times> str" where
  "split_first sep s = (takeWhile (\<lambda>c. c \<noteq> sep) s, tl (dropWhile (\<lambda>c. c \<noteq> sep) s))"

text \<open>\<open>sep.join(names)\<close>.\<close>

fun join :: "str \<Rightarrow> str list \<Rightarrow> str" where
  "join sep [] = []"
| "join sep [x] = x"
| "join sep (x # y # ys) = x @ sep @ join sep (y # ys)"

section \<open>The regular expressions of the version patterns\<close>

text \<open>
  The fragment of Python's \<open>re\<close> that \<open>MC_VERSION_PATTERNS\<close> uses: a character
  class, sequence, the greedy \<open>*\<close> and \<open>+\<close> of a class, the greedy optional
  non-capturing group \<open>(?:r)?\<close>, the capturing group 1, and the anchors \<open>^\<close> and
  \<open>$\<close> (without \<open>re.MULTILINE\<close>: \<open>$\<close> also matches before a final newline).
\<close>

datatype cclass = Digit | Space | OneOf str

fun in_class :: "runtime \<Rightarrow> cclass \<Rightarrow> int \<Rightarrow> bool" where
  "in_class rt Digit c = is_digit rt c"
| "in_class rt Space c = is_space rt c"
| "in_class rt (OneOf cs) c = (c \<in> set cs)"

datatype rx =
    Chr cclass
  | Seq rx rx
  | Star cclass
  | Plus cclass
  | Opt rx
  | Grp rx
  | Bol
  | Eol

text \<open>
  A matcher state is the current position and the span of group 1, if it has matched.
  \<open>rx_match rt r s st\<close> lists the states in which \<open>r\<close> can end when started in \<open>st\<close>, in
  the order in which a backtracking matcher tries them: the longest repetition first, the
  optional part taken before it is skipped. The head of the list is the match Python
  reports at that start position.
\<close>

type_synonym mstate = "nat \<times> (nat \<times> nat) option"

definition run_length :: "runtime \<Rightarrow> cclass \<Rightarrow> str \<Rightarrow> nat \<Rightarrow> nat" where
  "run_length rt cl s i = length (takeWhile (in_class rt cl) (drop i s))"

fun rx_match :: "runtime \<Rightarrow> rx \<Rightarrow> str \<Rightarrow> mstate \<Rightarrow> mstate list" where
  "rx_match rt (Chr cl) s (i, g) =
     (if i < length s \<and> in_class rt cl (s ! i) then [(Suc i, g)] else [])"
| "rx_match rt (Seq a b) s st = concat (map (rx_match rt b s) (rx_match rt a s st))"
| "rx_match rt (Star cl) s (i, g) =
     map (\<lambda>j. (j, g)) (rev [i ..< Suc (i + run_length rt cl s i)])"
| "rx_match rt (Plus cl) s (i, g) =
     map (\<lambda>j. (j, g)) (rev [Suc i ..< Suc (i + run_length rt cl s i)])"
| "rx_match rt (Opt a) s st = rx_match rt a s st @ [st]"
| "rx_match rt (Grp a) s (i, g) = map (\<lambda>(j, _). (j, Some (i, j))) (rx_match rt a s (i, g))"
| "rx_match rt Bol s (i, g) = (if i = 0 then [(i, g)] else [])"
| "rx_match rt Eol s (i, g) =
     (if i = length s \<or> (Suc i = length s \<and> s ! i = ch CHR 0x0A) then [(i, g)] else [])"

text \<open>\<open>match.group(1)\<close>: the text of group 1, \<open>None\<close> when the group took no part.\<close>

definition slice :: "str \<Rightarrow> nat \<Rightarrow> nat \<Rightarrow> str" where
  "slice s a b = take (b - a) (drop a s)"

definition group1 :: "str \<Rightarrow> (nat \<times> nat) option \<Rightarrow> str option" where
  "group1 s g = (case g of None \<Rightarrow> None | Some (a, b) \<Rightarrow> Some (slice s a b))"

text \<open>
  \<open>pattern.finditer(s)\<close>, as the list of \<open>group(1)\<close> of the matches: the leftmost
  start position at which the pattern matches, the first match the backtracking order
  finds there, then on from the end of that match (one further after an empty match).
\<close>

function finditer_from :: "runtime \<Rightarrow> rx \<Rightarrow> str \<Rightarrow> nat \<Rightarrow> str option list" where
  "finditer_from rt r s i =
     (if length s < i then []
      else (case rx_match rt r s (i, None) of
              [] \<Rightarrow> finditer_from rt r s (Suc i)
            | (j, g) # _ \<Rightarrow> group1 s g # finditer_from rt r s (if i < j then j else Suc i)))"
  by pat_completeness auto
termination
  by (relation "measure (\<lambda>(rt, r, s, i). Suc (length s) - i)") auto

declare finditer_from.simps [simp del]

definition finditer :: "runtime \<Rightarrow> rx \<Rightarrow> str \<Rightarrow> str option list" where
  "finditer rt r s = finditer_from rt r s 0"

section \<open>The version-constraint parser (extractors/base.py)\<close>

text \<open>The shared sub-pattern \<open>\d+\.\d+(?:\.\d+)?\<close> and the five patterns, in their order.\<close>

definition rx_dot :: rx where
  "rx_dot = Chr (OneOf (lit ''.''))"

definition rx_major_minor :: rx where
  "rx_major_minor = Seq (Plus Digit) (Seq rx_dot (Plus Digit))"

definition rx_version :: rx where
  "rx_version = Seq (Plus Digit) (Seq rx_dot (Seq (Plus Digit) (Opt (Seq rx_dot (Plus Digit)))))"

definition pat_exact :: rx where
  "pat_exact = Seq Bol (Seq (Grp rx_version) Eol)"

definition pat_semver :: rx where
  "pat_semver = Seq (Star (OneOf (lit ''><=~^''))) (Seq (Star Space) (Grp rx_version))"

definition pat_maven_lower :: rx where
  "pat_maven_lower =
     Seq (Chr (OneOf (lit ''[(''))) (Seq (Grp rx_version) (Seq (Star Space) (Chr (OneOf (lit '','')))))"

definition pat_maven_upper :: rx where
  "pat_maven_upper =
     Seq (Chr (OneOf (lit '',''))) (Seq (Star Space) (Seq (Grp rx_version) (Chr (OneOf (lit ''])'')))))"

definition pat_wildcard :: rx where
  "pat_wildcard = Seq (Grp rx_major_minor) (Opt (Seq rx_dot (Chr (OneOf (lit ''x*'')))))"

definition MC_VERSION_PATTERNS :: "rx list" where
  "MC_VERSION_PATTERNS = [pat_exact, pat_semver, pat_maven_lower, pat_maven_upper, pat_wildcard]"

text \<open>
  The string branch of \<open>_parse_mc_versions\<close>: every pattern is run over the stripped
  constraint, each \<open>group(1)\<close> that is non-empty and has at least two dot-separated
  parts goes into a set, and the set is returned sorted.
\<close>

definition harvest :: "runtime \<Rightarrow> str \<Rightarrow> str list" where
  "harvest rt constraint =
     concat (map (\<lambda>pattern.
        concat (map (\<lambda>m. case m of
                      None \<Rightarrow> []
                    | Some version \<Rightarrow>
                        if version \<noteq> [] \<and> 2 \<le> length (split_on (ch CHR ''.'') version)
                        then [version] else [])
                 (finditer rt pattern constraint)))
       MC_VERSION_PATTERNS)"

definition parse_constraint_string :: "runtime \<Rightarrow> str \<Rightarrow> str list" where
  "parse_constraint_string rt version_constraint =
     sort (remdups (harvest rt (strip rt version_constraint)))"

type_synonym path = str

text \<open>
  \<open>_parse_mc_versions\<close>: nothing for a falsy constraint; a list is parsed item by item
  and returned as \<open>list(set(versions))\<close>; anything else that is no string gives nothing.
\<close>

fun parse_mc_versions :: "runtime \<Rightarrow> pv \<Rightarrow> str list" where
  "parse_mc_versions rt version_constraint =
     (if \<not> truthy version_constraint then []
      else (case version_constraint of
              PList items \<Rightarrow> set_iter rt (concat (map (parse_mc_versions rt) items))
            | PStr s \<Rightarrow> parse_constraint_string rt s
            | _ \<Rightarrow> []))"

declare parse_mc_versions.simps [simp del]

text \<open>\<open>_safe_decode\<close>: UTF-8, and Latin-1 when that fails.\<close>

definition safe_decode :: "runtime \<Rightarrow> bytes \<Rightarrow> str" where
  "safe_decode rt content = (case utf8_decode rt content of Some s \<Rightarrow> s | None \<Rightarrow> lit content)"

text \<open>\<open>_extract_dependencies\<close>, on a dictionary \<open>data\<close>.\<close>

fun dependency_ids :: "pv list \<Rightarrow> pv list" where
  "dependency_ids [] = []"
| "dependency_ids (dep # deps) =
     (case dep of
        PStr s \<Rightarrow> [PStr s]
      | PDict dd \<Rightarrow>
          (let dep_id = py_or (py_or (dict_get dd (lit ''modId'')) (dict_get dd (lit ''id'')))
                              (dict_get dd (lit ''mod_id''))
           in if truthy dep_id then [dep_id] else [])
      | _ \<Rightarrow> []) @ dependency_ids deps"

definition extract_dependencies :: "(str \<times> pv) list \<Rightarrow> str list \<Rightarrow> pv list" where
  "extract_dependencies data dep_fields =
     concat (map (\<lambda>field.
        case map_of data field of
          None \<Rightarrow> []
        | Some deps \<Rightarrow>
            (case deps of
               PDict dd \<Rightarrow> map (\<lambda>kv. PStr (fst kv)) dd
             | PList ds \<Rightarrow> dependency_ids ds
             | _ \<Rightarrow> [])) dep_fields)"

text \<open>\<open>_normalize_authors\<close>.\<close>

fun author_names :: "runtime \<Rightarrow> pv list \<Rightarrow> str list" where
  "author_names rt [] = []"
| "author_names rt (a # as) =
     (case a of
        PStr s \<Rightarrow> (if strip rt s \<noteq> [] then [strip rt s] else [])
      | PDict ad \<Rightarrow>
          (case py_or (py_or (dict_get ad (lit ''name'')) (dict_get ad (lit ''username''))) (dict_get ad (lit ''id'')) of
             PStr n \<Rightarrow> (if n \<noteq> [] \<and> strip rt n \<noteq> [] then [strip rt n] else [])
           | _ \<Rightarrow> [])
      | _ \<Rightarrow> []) @ author_names rt as"

definition normalize_authors :: "runtime \<Rightarrow> pv \<Rightarrow> str option" where
  "normalize_authors rt authors =
     (if \<not> truthy authors then None
      else (case authors of
              PStr s \<Rightarrow> (if strip rt s \<noteq> [] then Some (strip rt s) else None)
            | PList as \<Rightarrow>
                (let names = author_names rt as
                 in if names \<noteq> [] then Some (join (lit '', '') names) else None)
            | _ \<Rightarrow> None))"

text \<open>
  The description idiom of all four extractors:
  \<open>description.strip() or None\<close> for a string, \<open>None\<close> for anything else.
\<close>

definition strip_or_none :: "runtime \<Rightarrow> pv \<Rightarrow> str option" where
  "strip_or_none rt v =
     (case v of PStr s \<Rightarrow> (if strip rt s \<noteq> [] then Some (strip rt s) else None) | _ \<Rightarrow> None)"

section \<open>Records, archives and paths (models.py, zipfile, pathlib)\<close>

text \<open>
  \<open>ModInfo\<close> is a dataclass that checks no field type: \<open>name\<close>, \<open>version\<close>,
  \<open>mod_id\<close> and the dependencies hold whatever value the metadata gave.
\<close>

record ModInfo =
  name :: pv
  loader :: str
  version :: pv
  filename :: str
  mod_id :: pv
  dependencies :: "pv list"
  author :: "str option"
  description :: "str option"
  mc_versions :: "str list"
  disabled :: bool

text \<open>
  \<open>ScanResult\<close>, without the two wall-clock fields \<open>scan_duration\<close> and
  \<open>generated_at\<close>.
\<close>

record ScanResult =
  mods :: "ModInfo list"
  errors :: "str list"
  total_files :: nat

text \<open>
  An open archive: its \<open>namelist()\<close>, and the bytes of an entry (\<open>None\<close> when reading
  it raises). \<open>jar.open(n)\<close> raises \<open>KeyError\<close> for a name that is not listed.
\<close>

record jar =
  namelist :: "str list"
  contents :: "str \<Rightarrow> bytes option"

definition jar_read :: "jar \<Rightarrow> str \<Rightarrow> bytes option" where
  "jar_read j n = (if n \<in> set (namelist j) then contents j n else None)"

text \<open>
  The exceptions \<open>_extract_single_mod\<close> tells apart: \<open>zipfile.BadZipFile\<close>, and any
  other \<open>Exception\<close> with its \<open>str(e)\<close>.
\<close>

datatype exn = BadZipFile | OtherException str

text \<open>
  A path is its text, \<open>str(path)\<close>. \<open>Path.name\<close> is the last component that is
  neither empty nor a single dot, and empty when there is none; \<open>Path.stem\<close> is the name
  up to its last dot, when that dot is neither first nor last.
\<close>

definition path_parts :: "path \<Rightarrow> str list" where
  "path_parts p = filter (\<lambda>part. part \<noteq> [] \<and> part \<noteq> lit ''.'') (split_on (ch CHR ''/'') p)"

definition path_name :: "path \<Rightarrow> str" where
  "path_name p = (case path_parts p of [] \<Rightarrow> [] | part # parts \<Rightarrow> last (part # parts))"

definition path_stem :: "path \<Rightarrow> str" where
  "path_stem p =
     (let n = path_name p
      in if ch CHR ''.'' \<in> set n
         then (let i = length n - Suc (length (takeWhile (\<lambda>c. c \<noteq> ch CHR ''.'') (rev n)))
               in if 0 < i \<and> i < length n - 1 then take i n else n)
         else n)"

text \<open>
  The file system, as the scan sees it: \<open>Path.exists\<close>, \<open>Path.is_dir\<close>,
  \<open>Path.glob\<close> and \<open>Path.rglob\<close> (which raise for a pattern they do not accept), and
  \<open>zipfile.ZipFile(path, 'r')\<close>.
\<close>

record fsys =
  path_exists :: "path \<Rightarrow> bool"
  is_dir :: "path \<Rightarrow> bool"
  glob :: "path \<Rightarrow> str \<Rightarrow> exn + path list"
  rglob :: "path \<Rightarrow> str \<Rightarrow> exn + path list"
  zip_open :: "path \<Rightarrow> exn + jar"

section \<open>Extractors (extractors/base.py, fabric.py, quilt.py, forge.py)\<close>

text \<open>
  \<open>BaseExtractor\<close>: a name, a priority, \<open>can_extract\<close> and \<open>extract\<close>. Either
  method of an extractor passed to the scanner may raise (\<open>Inl\<close>).
\<close>

record extractor =
  extractor_name :: str
  priority :: int
  can_extract :: "jar \<Rightarrow> str list \<Rightarrow> exn + bool"
  extract_mod :: "jar \<Rightarrow> path \<Rightarrow> str list \<Rightarrow> exn + ModInfo option"

text \<open>
  Inside the \<open>try\<close> block of an \<open>extract\<close>, \<open>None\<close> stands for an exception: every
  \<open>except\<close> clause there logs and falls through to \<open>return None\<close>. \<open>x.get(...)\<close>
  raises \<open>AttributeError\<close> unless \<open>x\<close> is a dictionary.
\<close>

definition as_dict :: "pv \<Rightarrow> (str \<times> pv) list option" where
  "as_dict v = (case v of PDict d \<Rightarrow> Some d | _ \<Rightarrow> None)"

definition fabric_extract :: "runtime \<Rightarrow> jar \<Rightarrow> path \<Rightarrow> str list \<Rightarrow> ModInfo option" where
  "fabric_extract rt j jar_path files = do {
     raw \<leftarrow> jar_read j (lit ''fabric.mod.json'');
     parsed \<leftarrow> json_loads rt (safe_decode rt raw);
     data \<leftarrow> as_dict parsed;
     Some \<lparr> name = dict_get_default data (lit ''name'')
                     (dict_get_default data (lit ''id'') (PStr (path_stem jar_path))),
            loader = lit ''fabric'',
            version = dict_get_default data (lit ''version'') (PStr (lit ''Unknown'')),
            filename = path_name jar_path,
            mod_id = dict_get_default data (lit ''id'') (PStr []),
            dependencies = extract_dependencies data [lit ''depends'', lit ''recommends''],
            author = normalize_authors rt (dict_get data (lit ''authors'')),
            description = strip_or_none rt (dict_get data (lit ''description'')),
            mc_versions =
              (case dict_get_default data (lit ''depends'') (PDict []) of
                 PDict depends \<Rightarrow>
                   (case map_of depends (lit ''minecraft'') of
                      Some v \<Rightarrow> parse_mc_versions rt v
                    | None \<Rightarrow> [])
               | _ \<Rightarrow> []),
            disabled = False \<rparr>
   }"

definition FabricExtractor :: "runtime \<Rightarrow> extractor" where
  "FabricExtractor rt =
     \<lparr> extractor_name = lit ''Fabric'',
       priority = 1,
       can_extract = (\<lambda>j files. Inr (lit ''fabric.mod.json'' \<in> set files)),
       extract_mod = (\<lambda>j jar_path files. Inr (fabric_extract rt j jar_path files)) \<rparr>"

text \<open>The loop of \<open>QuiltExtractor.extract\<close> over \<open>depends\<close>.\<close>

fun quilt_depends :: "runtime \<Rightarrow> pv list \<Rightarrow> pv list \<times> str list \<Rightarrow> pv list \<times> str list" where
  "quilt_depends rt [] acc = acc"
| "quilt_depends rt (dep # rest) (deps, mcv) =
     quilt_depends rt rest
       (case dep of
          PDict dd \<Rightarrow>
            (let dep_id = dict_get dd (lit ''id'')
             in if truthy dep_id
                then (if dep_id = PStr (lit ''minecraft'')
                      then (deps, parse_mc_versions rt
                                    (py_or (dict_get dd (lit ''versions'')) (dict_get dd (lit ''version''))))
                      else (deps @ [dep_id], mcv))
                else (deps, mcv))
        | PStr s \<Rightarrow> (deps @ [PStr s], mcv)
        | _ \<Rightarrow> (deps, mcv))"

definition quilt_author :: "runtime \<Rightarrow> (str \<times> pv) list \<Rightarrow> str option" where
  "quilt_author rt metadata =
     (let contributors = dict_get metadata (lit ''contributors'');
          found = (if truthy contributors
                   then (case contributors of
                           PDict cd \<Rightarrow> Some (join (lit '', '') (map fst cd))
                         | _ \<Rightarrow> normalize_authors rt contributors)
                   else None)
      in if found = None \<or> found = Some []
         then normalize_authors rt (dict_get metadata (lit ''authors''))
         else found)"

definition quilt_extract :: "runtime \<Rightarrow> jar \<Rightarrow> path \<Rightarrow> str list \<Rightarrow> ModInfo option" where
  "quilt_extract rt j jar_path files = do {
     raw \<leftarrow> jar_read j (lit ''quilt.mod.json'');
     parsed \<leftarrow> json_loads rt (safe_decode rt raw);
     data \<leftarrow> as_dict parsed;
     quilt_loader \<leftarrow> as_dict (dict_get_default data (lit ''quilt_loader'') (PDict []));
     metadata \<leftarrow> as_dict (dict_get_default quilt_loader (lit ''metadata'') (PDict []));
     let quilt_id = dict_get_default quilt_loader (lit ''id'') (PStr []);
     let depends = dict_get_default quilt_loader (lit ''depends'') (PList []);
     let found = (case depends of
                    PList ds \<Rightarrow> quilt_depends rt ds ([], [])
                  | _ \<Rightarrow> ([], []));
     Some \<lparr> name = dict_get_default metadata (lit ''name'') (py_or quilt_id (PStr (path_stem jar_path))),
            loader = lit ''quilt'',
            version = dict_get_default quilt_loader (lit ''version'') (PStr (lit ''Unknown'')),
            filename = path_name jar_path,
            mod_id = quilt_id,
            dependencies = fst found,
            author = quilt_author rt metadata,
            description = strip_or_none rt (dict_get metadata (lit ''description'')),
            mc_versions = snd found,
            disabled = False \<rparr>
   }"

definition QuiltExtractor :: "runtime \<Rightarrow> extractor" where
  "QuiltExtractor rt =
     \<lparr> extractor_name = lit ''Quilt'',
       priority = 2,
       can_extract = (\<lambda>j files. Inr (lit ''quilt.mod.json'' \<in> set files)),
       extract_mod = (\<lambda>j jar_path files. Inr (quilt_extract rt j jar_path files)) \<rparr>"

text \<open>\<open>ForgeTomlExtractor\<close>. \<open>x.lower()\<close> raises unless \<open>x\<close> is a string.\<close>

definition TOML_FILES :: "str list" where
  "TOML_FILES = [lit ''META-INF/neoforge.mods.toml'', lit ''META-INF/mods.toml'']"

definition find_toml_file :: "str list \<Rightarrow> str option" where
  "find_toml_file files = find (\<lambda>toml_file. toml_file \<in> set files) TOML_FILES"

definition str_lower :: "runtime \<Rightarrow> pv \<Rightarrow> str option" where
  "str_lower rt v = (case v of PStr s \<Rightarrow> Some (lower rt s) | _ \<Rightarrow> None)"

text \<open>
  \<open>mods[0]\<close> for a truthy \<open>mods\<close>: the first element of a list, the first character
  of a string; a dictionary has no key \<open>0\<close> and the other values cannot be indexed.
\<close>

definition first_item :: "pv \<Rightarrow> pv option" where
  "first_item v =
     (case v of
        PList (x # _) \<Rightarrow> Some x
      | PStr (c # _) \<Rightarrow> Some (PStr [c])
      | _ \<Rightarrow> None)"

text \<open>
  The loop \<open>for dep in mod_deps\<close> of \<open>_detect_loader\<close>: whether a dictionary entry has
  the \<open>modId\<close> \<open>neoforge\<close> (in any case of letters), \<open>None\<close> when a \<open>modId\<close> met on the way
  has no \<open>lower()\<close>.
\<close>

fun deps_name_neoforge :: "runtime \<Rightarrow> pv list \<Rightarrow> bool option" where
  "deps_name_neoforge rt [] = Some False"
| "deps_name_neoforge rt (dep # rest) =
     (case dep of
        PDict dd \<Rightarrow>
          (case str_lower rt (dict_get_default dd (lit ''modId'') (PStr [])) of
             None \<Rightarrow> None
           | Some dep_mod_id \<Rightarrow>
               if dep_mod_id = lit ''neoforge'' then Some True else deps_name_neoforge rt rest)
      | _ \<Rightarrow> deps_name_neoforge rt rest)"

text \<open>The loop \<open>for mod_deps in dependencies.values()\<close>.\<close>

fun sections_name_neoforge :: "runtime \<Rightarrow> pv list \<Rightarrow> bool option" where
  "sections_name_neoforge rt [] = Some False"
| "sections_name_neoforge rt (mod_deps # rest) =
     (case mod_deps of
        PList ds \<Rightarrow>
          (case deps_name_neoforge rt ds of
             None \<Rightarrow> None
           | Some True \<Rightarrow> Some True
           | Some False \<Rightarrow> sections_name_neoforge rt rest)
      | _ \<Rightarrow> sections_name_neoforge rt rest)"

text \<open>
  The block \<open>if mods:\<close> of \<open>_detect_loader\<close>. \<open>mod_id in dependencies\<close> is a key test
  on a dictionary, an element test on a list, a substring test on a string and a
  \<open>TypeError\<close> otherwise; \<open>dependencies[mod_id]\<close> then raises unless \<open>dependencies\<close>
  is a dictionary.
\<close>

definition own_deps_name_neoforge :: "runtime \<Rightarrow> (str \<times> pv) list \<Rightarrow> pv \<Rightarrow> bool option" where
  "own_deps_name_neoforge rt data deps =
     (let mods_v = dict_get_default data (lit ''mods'') (PList [])
      in if \<not> truthy mods_v then Some False
         else do {
           first \<leftarrow> first_item mods_v;
           first_mod \<leftarrow> as_dict first;
           own_id \<leftarrow> str_lower rt (dict_get_default first_mod (lit ''modId'') (PStr []));
           (case deps of
              PDict dd \<Rightarrow>
                (case map_of dd own_id of
                   None \<Rightarrow> Some False
                 | Some mod_deps \<Rightarrow>
                     (case mod_deps of
                        PList ds \<Rightarrow> deps_name_neoforge rt ds
                      | _ \<Rightarrow> Some False))
            | PList xs \<Rightarrow> (if PStr own_id \<in> set xs then None else Some False)
            | PStr s \<Rightarrow> (if sublist own_id s then None else Some False)
            | _ \<Rightarrow> None)
         })"

text \<open>\<open>_detect_loader\<close>, the six rules in their order; \<open>None\<close> when it raises.\<close>

definition detect_loader ::
    "runtime \<Rightarrow> str \<Rightarrow> (str \<times> pv) list \<Rightarrow> path \<Rightarrow> str option" where
  "detect_loader rt toml_file data jar_path =
     (if sublist (lit ''neoforge.mods.toml'') toml_file then Some (lit ''neoforge'')
      else do {
        mod_loader \<leftarrow> str_lower rt (dict_get_default data (lit ''modLoader'') (PStr []));
        if sublist (lit ''neoforge'') mod_loader then Some (lit ''neoforge'')
        else do {
          let deps = dict_get_default data (lit ''dependencies'') (PDict []);
          in_sections \<leftarrow> (case deps of
                            PDict dd \<Rightarrow> sections_name_neoforge rt (map snd dd)
                          | _ \<Rightarrow> Some False);
          if in_sections then Some (lit ''neoforge'')
          else do {
            in_own \<leftarrow> own_deps_name_neoforge rt data deps;
            if in_own then Some (lit ''neoforge'')
            else if sublist (lit ''neoforge'') (lower rt (path_name jar_path)) then Some (lit ''neoforge'')
            else do {
              loader_version \<leftarrow> str_lower rt (dict_get_default data (lit ''loaderVersion'') (PStr []));
              if sublist (lit ''neoforge'') loader_version then Some (lit ''neoforge'')
              else Some (lit ''forge'')
            }
          }
        }
      })"

text \<open>
  \<open>deps_section.get(mod_id, [])\<close>: a list or dictionary is not hashable
  (\<open>TypeError\<close>); any other value that is no string is not among the keys.
\<close>

definition section_of :: "(str \<times> pv) list \<Rightarrow> pv \<Rightarrow> pv option" where
  "section_of deps_section own_id =
     (case own_id of
        PStr k \<Rightarrow> Some (dict_get_default deps_section k (PList []))
      | PList _ \<Rightarrow> None
      | PDict _ \<Rightarrow> None
      | _ \<Rightarrow> Some (PList []))"

fun toml_dependency_ids :: "pv list \<Rightarrow> pv list" where
  "toml_dependency_ids [] = []"
| "toml_dependency_ids (dep # rest) =
     (case dep of
        PDict dd \<Rightarrow>
          (let dep_id = dict_get_default dd (lit ''modId'') (PStr [])
           in if truthy dep_id
                 \<and> dep_id \<notin> set [PStr (lit ''minecraft''), PStr (lit ''forge''), PStr (lit ''neoforge'')]
              then [dep_id] else [])
      | _ \<Rightarrow> []) @ toml_dependency_ids rest"

definition extract_dependencies_from_toml :: "(str \<times> pv) list \<Rightarrow> pv \<Rightarrow> pv list option" where
  "extract_dependencies_from_toml data own_id =
     (case dict_get_default data (lit ''dependencies'') (PDict []) of
        PDict deps_section \<Rightarrow> do {
          mod_deps \<leftarrow> section_of deps_section own_id;
          (case mod_deps of
             PList ds \<Rightarrow> Some (toml_dependency_ids ds)
           | _ \<Rightarrow> Some [])
        }
      | _ \<Rightarrow> Some [])"

text \<open>
  The loop of \<open>_extract_mc_versions_from_toml\<close>: the first dictionary entry whose
  \<open>modId\<close> is \<open>minecraft\<close> decides.
\<close>

fun toml_minecraft_versions :: "runtime \<Rightarrow> pv list \<Rightarrow> str list option" where
  "toml_minecraft_versions rt [] = Some []"
| "toml_minecraft_versions rt (dep # rest) =
     (case dep of
        PDict dd \<Rightarrow>
          (case str_lower rt (dict_get_default dd (lit ''modId'') (PStr [])) of
             None \<Rightarrow> None
           | Some dep_mod_id \<Rightarrow>
               if dep_mod_id = lit ''minecraft''
               then Some (parse_mc_versions rt (dict_get_default dd (lit ''versionRange'') (PStr [])))
               else toml_minecraft_versions rt rest)
      | _ \<Rightarrow> toml_minecraft_versions rt rest)"

definition extract_mc_versions_from_toml ::
    "runtime \<Rightarrow> (str \<times> pv) list \<Rightarrow> pv \<Rightarrow> str list option" where
  "extract_mc_versions_from_toml rt data own_id =
     (case dict_get_default data (lit ''dependencies'') (PDict []) of
        PDict deps_section \<Rightarrow> do {
          mod_deps \<leftarrow> section_of deps_section own_id;
          (case mod_deps of
             PList ds \<Rightarrow> toml_minecraft_versions rt ds
           | _ \<Rightarrow> Some [])
        }
      | _ \<Rightarrow> Some [])"

text \<open>
  \<open>_get_version_from_manifest\<close>: the value of the first \<open>Implementation-Version\<close>
  line; its own \<open>except\<close> clause turns a failed read into \<open>None\<close>.
\<close>

fun manifest_version :: "runtime \<Rightarrow> str list \<Rightarrow> str option" where
  "manifest_version rt [] = None"
| "manifest_version rt (l # ls) =
     (let line = strip rt l
      in if (ch CHR '':'') \<in> set line
         then (let kv = split_first (ch CHR '':'') line
               in if strip rt (fst kv) = lit ''Implementation-Version'' then Some (strip rt (snd kv))
                  else manifest_version rt ls)
         else manifest_version rt ls)"

definition get_version_from_manifest :: "runtime \<Rightarrow> jar \<Rightarrow> str list \<Rightarrow> str option" where
  "get_version_from_manifest rt j files =
     (if (lit ''META-INF/MANIFEST.MF'') \<notin> set files then None
      else (case jar_read j (lit ''META-INF/MANIFEST.MF'') of
              None \<Rightarrow> None
            | Some raw \<Rightarrow> manifest_version rt (split_on (ch CHR 0x0A) (safe_decode rt raw))))"

definition forge_toml_extract :: "runtime \<Rightarrow> jar \<Rightarrow> path \<Rightarrow> str list \<Rightarrow> ModInfo option" where
  "forge_toml_extract rt j jar_path files =
     (case find_toml_file files of
        None \<Rightarrow> None
      | Some toml_file \<Rightarrow>
          (if toml_file = [] then None
           else do {
             raw \<leftarrow> jar_read j toml_file;
             loads \<leftarrow> toml_loads rt;
             parsed \<leftarrow> loads (safe_decode rt raw);
             data \<leftarrow> as_dict parsed;
             let mods_v = dict_get_default data (lit ''mods'') (PList []);
             if \<not> truthy mods_v then None
             else do {
               first \<leftarrow> first_item mods_v;
               first_mod \<leftarrow> as_dict first;
               let own_id = dict_get_default first_mod (lit ''modId'') (PStr []);
               let shown = dict_get_default first_mod (lit ''displayName'')
                             (dict_get_default first_mod (lit ''modId'') (PStr (path_stem jar_path)));
               declared \<leftarrow> (case dict_get_default first_mod (lit ''version'') (PStr (lit ''Unknown'')) of
                              PStr v \<Rightarrow> Some v
                            | _ \<Rightarrow> None);
               let ver = (if prefix (lit ''${'') declared \<and> suffix (lit ''}'') declared
                          then (case get_version_from_manifest rt j files of
                                  None \<Rightarrow> declared
                                | Some mv \<Rightarrow> if mv \<noteq> [] then mv else declared)
                          else declared);
               found_loader \<leftarrow> detect_loader rt toml_file data jar_path;
               deps \<leftarrow> extract_dependencies_from_toml data own_id;
               mcv \<leftarrow> extract_mc_versions_from_toml rt data own_id;
               Some \<lparr> name = shown,
                      loader = found_loader,
                      version = PStr ver,
                      filename = path_name jar_path,
                      mod_id = own_id,
                      dependencies = deps,
                      author = strip_or_none rt (dict_get first_mod (lit ''authors'')),
                      description = strip_or_none rt (dict_get first_mod (lit ''description'')),
                      mc_versions = mcv,
                      disabled = False \<rparr>
             }
           }))"

definition ForgeTomlExtractor :: "runtime \<Rightarrow> extractor" where
  "ForgeTomlExtractor rt =
     \<lparr> extractor_name = lit ''Forge/NeoForge TOML'',
       priority = 3,
       can_extract = (\<lambda>j files.
          Inr (if toml_loads rt = None then False
               else (\<exists>toml_file \<in> set TOML_FILES. toml_file \<in> set files))),
       extract_mod = (\<lambda>j jar_path files. Inr (forge_toml_extract rt j jar_path files)) \<rparr>"

text \<open>\<open>LegacyForgeExtractor\<close>: the three shapes of \<open>mcmod.info\<close>.\<close>

definition legacy_first_mod :: "pv \<Rightarrow> pv option" where
  "legacy_first_mod data =
     (case data of
        PList (m # _) \<Rightarrow> Some m
      | PDict d \<Rightarrow>
          (case map_of d (lit ''modList'') of
             Some (PList ml) \<Rightarrow> (case ml of [] \<Rightarrow> Some (PDict []) | m # _ \<Rightarrow> Some m)
           | _ \<Rightarrow> Some (PDict d))
      | _ \<Rightarrow> None)"

definition is_str :: "pv \<Rightarrow> bool" where
  "is_str v = (case v of PStr _ \<Rightarrow> True | _ \<Rightarrow> False)"

definition legacy_extract :: "runtime \<Rightarrow> jar \<Rightarrow> path \<Rightarrow> str list \<Rightarrow> ModInfo option" where
  "legacy_extract rt j jar_path files = do {
     raw \<leftarrow> jar_read j (lit ''mcmod.info'');
     data \<leftarrow> json_loads rt (safe_decode rt raw);
     first \<leftarrow> legacy_first_mod data;
     first_mod \<leftarrow> as_dict first;
     let deps = py_or (dict_get_default first_mod (lit ''dependencies'') (PList []))
                      (dict_get_default first_mod (lit ''requiredMods'') (PList []));
     Some \<lparr> name = dict_get_default first_mod (lit ''name'')
                     (dict_get_default first_mod (lit ''modid'') (PStr (path_stem jar_path))),
            loader = lit ''forge'',
            version = dict_get_default first_mod (lit ''version'') (PStr (lit ''Unknown'')),
            filename = path_name jar_path,
            mod_id = dict_get_default first_mod (lit ''modid'') (PStr []),
            dependencies = (case deps of PList ds \<Rightarrow> filter is_str ds | _ \<Rightarrow> []),
            author = normalize_authors rt
                       (py_or (dict_get first_mod (lit ''authorList'')) (dict_get first_mod (lit ''authors''))),
            description = strip_or_none rt (dict_get first_mod (lit ''description'')),
            mc_versions =
              (case dict_get first_mod (lit ''mcversion'') of
                 PStr s \<Rightarrow> (if s \<noteq> [] then parse_mc_versions rt (PStr s) else [])
               | _ \<Rightarrow> []),
            disabled = False \<rparr>
   }"

definition LegacyForgeExtractor :: "runtime \<Rightarrow> extractor" where
  "LegacyForgeExtractor rt =
     \<lparr> extractor_name = lit ''Legacy Forge'',
       priority = 4,
       can_extract = (\<lambda>j files. Inr (lit ''mcmod.info'' \<in> set files)),
       extract_mod = (\<lambda>j jar_path files. Inr (legacy_extract rt j jar_path files)) \<rparr>"

definition ALL_EXTRACTORS :: "runtime \<Rightarrow> extractor list" where
  "ALL_EXTRACTORS rt =
     [FabricExtractor rt, QuiltExtractor rt, ForgeTomlExtractor rt, LegacyForgeExtractor rt]"

section \<open>The scanner (scanner.py)\<close>

record ModScanner =
  workers :: int
  extractors :: "extractor list"

text \<open>
  \<open>ModScanner.__init__\<close>: \<open>extractors or ALL_EXTRACTORS\<close>, sorted by priority
  (\<open>sorted\<close> is stable, as \<open>sort_key\<close> is).
\<close>

definition new_scanner :: "runtime \<Rightarrow> int \<Rightarrow> extractor list option \<Rightarrow> ModScanner" where
  "new_scanner rt n given =
     \<lparr> workers = n,
       extractors = sort_key priority
          (case given of
             None \<Rightarrow> ALL_EXTRACTORS rt
           | Some es \<Rightarrow> if es = [] then ALL_EXTRACTORS rt else es) \<rparr>"

text \<open>The record rebuilt with \<open>disabled=True\<close>, field by field, as the source does.\<close>

definition mark_disabled :: "ModInfo \<Rightarrow> ModInfo" where
  "mark_disabled mod_info =
     \<lparr> name = name mod_info,
       loader = loader mod_info,
       version = version mod_info,
       filename = filename mod_info,
       mod_id = mod_id mod_info,
       dependencies = dependencies mod_info,
       author = author mod_info,
       description = description mod_info,
       mc_versions = mc_versions mod_info,
       disabled = True \<rparr>"

text \<open>
  The loop \<open>for extractor in self.extractors\<close>: an extractor that does not claim the
  archive, or whose \<open>extract\<close> returns \<open>None\<close>, lets the loop go on to the next one;
  the first record returns. \<open>Inr None\<close> is the loop running out; \<open>Inl\<close> is an
  exception raised by an extractor.
\<close>

fun try_extractors ::
    "extractor list \<Rightarrow> jar \<Rightarrow> path \<Rightarrow> str list \<Rightarrow> bool \<Rightarrow> exn + ModInfo option" where
  "try_extractors [] j jar_path files dis = Inr None"
| "try_extractors (e # es) j jar_path files dis =
     (case can_extract e j files of
        Inl x \<Rightarrow> Inl x
      | Inr claims \<Rightarrow>
          if claims
          then (case extract_mod e j jar_path files of
                  Inl x \<Rightarrow> Inl x
                | Inr None \<Rightarrow> try_extractors es j jar_path files dis
                | Inr (Some mod_info) \<Rightarrow>
                    Inr (Some (if dis then mark_disabled mod_info else mod_info)))
          else try_extractors es j jar_path files dis)"

text \<open>\<open>_detect_loader_from_filename\<close>.\<close>

definition detect_loader_from_filename :: "runtime \<Rightarrow> str \<Rightarrow> str" where
  "detect_loader_from_filename rt fname =
     (let filename_lower = lower rt fname
      in if sublist (lit ''fabric'') filename_lower then (lit ''fabric'')
         else if sublist (lit ''neoforge'') filename_lower then (lit ''neoforge'')
         else if sublist (lit ''forge'') filename_lower then (lit ''forge'')
         else if sublist (lit ''quilt'') filename_lower then (lit ''quilt'')
         else (lit ''unknown''))"

text \<open>
  The loop of \<open>_fallback_extraction\<close> over the manifest lines: the last title-like
  key and the last version-like key win.
\<close>

fun manifest_fields ::
    "runtime \<Rightarrow> str list \<Rightarrow> str option \<times> str option \<Rightarrow> str option \<times> str option" where
  "manifest_fields rt [] acc = acc"
| "manifest_fields rt (l # ls) (nm, ver) =
     (let line = strip rt l
      in if (ch CHR '':'') \<in> set line
         then (let kv = split_first (ch CHR '':'') line;
                   k = strip rt (fst kv);
                   v = strip rt (snd kv)
               in if k \<in> set [lit ''Implementation-Title'', lit ''Bundle-Name'', lit ''Automatic-Module-Name'']
                  then manifest_fields rt ls (Some v, ver)
                  else if k \<in> set [lit ''Implementation-Version'', lit ''Bundle-Version'']
                  then manifest_fields rt ls (nm, Some v)
                  else manifest_fields rt ls (nm, ver))
         else manifest_fields rt ls (nm, ver))"

definition fallback_extraction :: "runtime \<Rightarrow> jar \<Rightarrow> path \<Rightarrow> str list \<Rightarrow> ModInfo option" where
  "fallback_extraction rt j jar_path files =
     (if (lit ''META-INF/MANIFEST.MF'') \<in> set files
      then (case jar_read j (lit ''META-INF/MANIFEST.MF'') of
              None \<Rightarrow> None
            | Some raw \<Rightarrow>
                (case manifest_fields rt (split_on (ch CHR 0x0A) (utf8_decode_replace rt raw)) (None, None) of
                   (Some nm, Some ver) \<Rightarrow>
                     if nm \<noteq> [] \<and> ver \<noteq> []
                     then Some \<lparr> name = PStr nm,
                                 loader = detect_loader_from_filename rt (path_name jar_path),
                                 version = PStr ver,
                                 filename = path_name jar_path,
                                 mod_id = PNone,
                                 dependencies = [],
                                 author = None,
                                 description = None,
                                 mc_versions = [],
                                 disabled = False \<rparr>
                     else None
                 | _ \<Rightarrow> None))
      else None)"

text \<open>
  \<open>_extract_single_mod\<close>. The body of the \<open>try\<close> block first, with an exception as
  \<open>Inl\<close>; then the two \<open>except\<close> clauses.
\<close>

definition inspect_archive ::
    "runtime \<Rightarrow> fsys \<Rightarrow> ModScanner \<Rightarrow> path \<Rightarrow> bool \<Rightarrow> exn + (ModInfo option \<times> str option)" where
  "inspect_archive rt fs sc jar_path dis =
     (case zip_open fs jar_path of
        Inl x \<Rightarrow> Inl x
      | Inr j \<Rightarrow>
          (let files = namelist j
           in case try_extractors (extractors sc) j jar_path files dis of
                Inl x \<Rightarrow> Inl x
              | Inr (Some mod_info) \<Rightarrow> Inr (Some mod_info, None)
              | Inr None \<Rightarrow>
                  (case fallback_extraction rt j jar_path files of
                     Some mod_info \<Rightarrow>
                       Inr (Some (if dis then mark_disabled mod_info else mod_info), None)
                   | None \<Rightarrow>
                       Inr (Some \<lparr> name = PStr (path_stem jar_path),
                                   loader = lit ''unknown'',
                                   version = PStr (lit ''Unknown''),
                                   filename = path_name jar_path,
                                   mod_id = PNone,
                                   dependencies = [],
                                   author = None,
                                   description = None,
                                   mc_versions = [],
                                   disabled = dis \<rparr>,
                            Some (lit ''No mod metadata found in '' @ path_name jar_path)))))"

definition extract_single_mod ::
    "runtime \<Rightarrow> fsys \<Rightarrow> ModScanner \<Rightarrow> path \<Rightarrow> bool \<Rightarrow> ModInfo option \<times> str option" where
  "extract_single_mod rt fs sc jar_path dis =
     (case inspect_archive rt fs sc jar_path dis of
        Inr found \<Rightarrow> found
      | Inl BadZipFile \<Rightarrow>
          (None, Some (lit ''Invalid or corrupted JAR file: '' @ path_name jar_path))
      | Inl (OtherException msg) \<Rightarrow>
          (None, Some (lit ''Failed to process '' @ path_name jar_path @ lit '': '' @ msg)))"

text \<open>
  The errors \<open>scan_folder\<close> raises, with their messages: the two of its set-up, the
  \<open>ValueError\<close> of \<open>ThreadPoolExecutor\<close> for a number of workers that is not positive,
  and an exception that \<open>glob\<close>, \<open>rglob\<close> or the progress callback raised.
\<close>

datatype scan_error = FileNotFoundError str | ValueError str | Propagated exn

text \<open>The candidate files: \<open>jar_files\<close> and, when asked for, \<open>disabled_files\<close>.\<close>

definition find_files :: "fsys \<Rightarrow> path \<Rightarrow> bool \<Rightarrow> str \<Rightarrow> exn + path list" where
  "find_files fs folder_path recursive pattern =
     (if recursive then rglob fs folder_path pattern else glob fs folder_path pattern)"

text \<open>The loop \<open>for pattern in exclude_patterns\<close>.\<close>

fun apply_exclusions :: "fsys \<Rightarrow> path \<Rightarrow> bool \<Rightarrow> str list \<Rightarrow> path list \<Rightarrow> exn + path list" where
  "apply_exclusions fs folder_path recursive [] all_files = Inr all_files"
| "apply_exclusions fs folder_path recursive (pattern # rest) all_files =
     (case find_files fs folder_path recursive pattern of
        Inl x \<Rightarrow> Inl x
      | Inr excluded \<Rightarrow>
          apply_exclusions fs folder_path recursive rest
            (filter (\<lambda>f. f \<notin> set excluded) all_files))"

definition discover ::
    "fsys \<Rightarrow> path \<Rightarrow> bool \<Rightarrow> str list \<Rightarrow> bool \<Rightarrow> exn + (path list \<times> path list)" where
  "discover fs folder_path recursive exclude_patterns include_disabled =
     (case find_files fs folder_path recursive (lit ''*.jar'') of
        Inl x \<Rightarrow> Inl x
      | Inr jar_files \<Rightarrow>
          (case (if include_disabled then find_files fs folder_path recursive (lit ''*.jar.disabled'')
                 else Inr []) of
             Inl x \<Rightarrow> Inl x
           | Inr disabled_files \<Rightarrow>
               (case apply_exclusions fs folder_path recursive exclude_patterns
                       (jar_files @ disabled_files) of
                  Inl x \<Rightarrow> Inl x
                | Inr all_files \<Rightarrow> Inr (all_files, disabled_files))))"

text \<open>
  A progress callback, when one is given: called with the number of completed files, the
  total and the file name, it returns (\<open>None\<close>) or raises.
\<close>

type_synonym callback = "(nat \<Rightarrow> nat \<Rightarrow> str \<Rightarrow> exn option) option"

definition report_progress :: "callback \<Rightarrow> nat \<Rightarrow> nat \<Rightarrow> str \<Rightarrow> exn option" where
  "report_progress progress_callback completed n_files fname =
     (case progress_callback of
        None \<Rightarrow> None
      | Some call \<Rightarrow> call completed n_files fname)"

text \<open>
  The loop \<open>for future in as_completed(future_to_jar)\<close>, from the count \<open>completed\<close>
  and the result so far: the callback is called, outside the \<open>try\<close> block, so that what
  it raises ends the scan; then a record is appended when there is one, an error when it
  is a non-empty string. (\<open>future.result()\<close> does not raise, \<open>_extract_single_mod\<close>
  having caught every exception.)
\<close>

fun collect ::
    "(path \<Rightarrow> ModInfo option \<times> str option) \<Rightarrow> callback \<Rightarrow> nat \<Rightarrow> path list
       \<Rightarrow> nat \<Rightarrow> ScanResult \<Rightarrow> exn + ScanResult" where
  "collect task progress_callback n_files [] completed result = Inr result"
| "collect task progress_callback n_files (jar_path # rest) completed result =
     (case report_progress progress_callback (Suc completed) n_files (path_name jar_path) of
        Some x \<Rightarrow> Inl x
      | None \<Rightarrow>
          (let found = task jar_path;
               r1 = (case fst found of
                       Some mod_info \<Rightarrow> result\<lparr> mods := mods result @ [mod_info] \<rparr>
                     | None \<Rightarrow> result);
               r2 = (case snd found of
                       Some error \<Rightarrow>
                         if error \<noteq> [] then r1\<lparr> errors := errors r1 @ [error] \<rparr> else r1
                     | None \<Rightarrow> r1)
           in collect task progress_callback n_files rest (Suc completed) r2))"

text \<open>
  \<open>scan_folder\<close>, with \<open>exclude_patterns=None\<close> as the empty list. The first
  component lists the archives submitted to the worker pool, in the order of submission:
  the only place where an archive is opened is the submitted \<open>_extract_single_mod\<close>.
\<close>

definition scan_folder ::
    "runtime \<Rightarrow> fsys \<Rightarrow> ModScanner \<Rightarrow> path \<Rightarrow> bool \<Rightarrow> str list \<Rightarrow> bool \<Rightarrow> callback
       \<Rightarrow> path list \<times> (scan_error + ScanResult)" where
  "scan_folder rt fs sc folder_path recursive exclude_patterns include_disabled progress_callback =
     (if \<not> path_exists fs folder_path
      then ([], Inl (FileNotFoundError (lit ''Folder not found: '' @ folder_path)))
      else if \<not> is_dir fs folder_path
      then ([], Inl (ValueError (lit ''Path is not a directory: '' @ folder_path)))
      else (case discover fs folder_path recursive exclude_patterns include_disabled of
              Inl x \<Rightarrow> ([], Inl (Propagated x))
            | Inr (all_files, disabled_files) \<Rightarrow>
                if all_files = []
                then ([], Inr \<lparr> mods = [], errors = [], total_files = 0 \<rparr>)
                else if workers sc \<le> 0
                then ([], Inl (ValueError (lit ''max_workers must be greater than 0'')))
                else (all_files,
                      case collect (\<lambda>jar_path. extract_single_mod rt fs sc jar_path
                                                  (jar_path \<in> set disabled_files))
                             progress_callback (length all_files) (as_completed rt all_files) 0
                             \<lparr> mods = [], errors = [], total_files = length all_files \<rparr> of
                        Inl x \<Rightarrow> Inl (Propagated x)
                      | Inr result \<Rightarrow> Inr result)))"

section \<open>Notions the properties are stated with\<close>









text \<open>
  What is assumed of the runtime where a property needs it: \<open>list(set(xs))\<close> lists
  the elements of \<open>xs\<close> once each, in some order, and \<open>as_completed\<close> yields every
  submitted task once.
\<close>

definition set_iter_ok :: "runtime \<Rightarrow> bool" where
  "set_iter_ok rt = (\<forall>xs. distinct (set_iter rt xs) \<and> set (set_iter rt xs) = set xs)"

definition as_completed_ok :: "runtime \<Rightarrow> bool" where
  "as_completed_ok rt = (\<forall>ps. mset (as_completed rt ps) = mset ps)"

text \<open>A progress callback that never raises, or none.\<close>

definition never_raises :: "callback \<Rightarrow> bool" where
  "never_raises progress_callback =
     (\<forall>completed n_files fname.
        report_progress progress_callback completed n_files fname = None)"

section \<open>A runtime, archives and a file system for the examples\<close>

text \<open>
  The example runtime decodes ASCII bytes as they are (the examples hold no others),
  parses the JSON text \<open>{}\<close> to the empty dictionary and rejects the text \<open>not json\<close>,
  parses the one TOML text of the examples, iterates a set in the order of first insertion,
  and completes the tasks in the order of their submission. Beyond ASCII it knows the
  Arabic-Indic digits (U+0660 to U+0669) as decimal digits and the Unicode spaces as
  whitespace, and it lowers no letter.
\<close>

definition example_toml :: bytes where
  "example_toml = ''modLoader=\"forge\"'' @ [CHR 0x0A] @ ''mods=[{modId=\"m\"}]''"

definition example_runtime :: runtime where
  "example_runtime =
     \<lparr> json_loads = (\<lambda>s. if s = lit ''{}'' then Some (PDict []) else None),
       toml_loads = Some (\<lambda>s. if s = lit example_toml
                                then Some (PDict [(lit ''modLoader'', PStr (lit ''forge'')),
                                                  (lit ''mods'',
                                                   PList [PDict [(lit ''modId'', PStr (lit ''m''))]])])
                                else None),
       utf8_decode = (\<lambda>b. if list_all (\<lambda>c. ch c < 128) b then Some (lit b) else None),
       utf8_decode_replace = (\<lambda>b. map (\<lambda>c. if ch c < 128 then ch c else 65533) b),
       set_iter = (\<lambda>xs. rev (remdups (rev xs))),
       as_completed = (\<lambda>ps. ps),
       unicode_decimal = (\<lambda>c. 1632 \<le> c \<and> c \<le> 1641),
       unicode_space = (\<lambda>c. c \<in> set [133, 160, 5760, 8232, 8233, 8239, 8287, 12288]
                              \<or> (8192 \<le> c \<and> c \<le> 8202)),
       unicode_lower = (\<lambda>s. s) \<rparr>"

text \<open>
  Four archives: one with a \<open>fabric.mod.json\<close> that is no JSON and a \<open>quilt.mod.json\<close>
  holding \<open>{}\<close>; one where both files hold \<open>{}\<close>; one with a
  \<open>META-INF/neoforge.mods.toml\<close> whose \<open>modLoader\<close> says \<open>forge\<close>; one with a single
  class file.
\<close>

definition both_jar :: jar where
  "both_jar =
     \<lparr> namelist = [lit ''fabric.mod.json'', lit ''quilt.mod.json''],
       contents = (\<lambda>n. if n = lit ''fabric.mod.json'' then Some ''not json''
                        else if n = lit ''quilt.mod.json'' then Some ''{}''
                        else None) \<rparr>"

definition twin_jar :: jar where
  "twin_jar =
     \<lparr> namelist = [lit ''fabric.mod.json'', lit ''quilt.mod.json''],
       contents = (\<lambda>n. if n = lit ''fabric.mod.json'' \<or> n = lit ''quilt.mod.json'' then Some ''{}''
                        else None) \<rparr>"

definition neo_jar :: jar where
  "neo_jar =
     \<lparr> namelist = [lit ''META-INF/neoforge.mods.toml''],
       contents = (\<lambda>n. if n = lit ''META-INF/neoforge.mods.toml'' then Some example_toml else None) \<rparr>"

definition plain_jar :: jar where
  "plain_jar =
     \<lparr> namelist = [lit ''a/B.class''],
       contents = (\<lambda>n. if n = lit ''a/B.class'' then Some ''cafe'' else None) \<rparr>"

text \<open>
  The directory \<open>mods\<close> holds these four archives and \<open>bad.jar\<close>, which is no zip
  file; \<open>empty\<close> is a directory without archives; \<open>notes.txt\<close> is a file.
\<close>

definition example_glob :: "path \<Rightarrow> str \<Rightarrow> exn + path list" where
  "example_glob p pattern =
     (if p = lit ''mods'' \<and> pattern = lit ''*.jar''
      then Inr [lit ''mods/both.jar'', lit ''mods/bad.jar'', lit ''mods/neo.jar'', lit ''mods/plain.jar'',
                lit ''mods/twin.jar'']
      else Inr [])"

definition example_fs :: fsys where
  "example_fs =
     \<lparr> path_exists = (\<lambda>p. p \<in> set [lit ''mods'', lit ''empty'', lit ''notes.txt'']),
       is_dir = (\<lambda>p. p \<in> set [lit ''mods'', lit ''empty'']),
       glob = example_glob,
       rglob = example_glob,
       zip_open = (\<lambda>p. if p = lit ''mods/both.jar'' then Inr both_jar
                        else if p = lit ''mods/neo.jar'' then Inr neo_jar
                        else if p = lit ''mods/plain.jar'' then Inr plain_jar
                        else if p = lit ''mods/twin.jar'' then Inr twin_jar
                        else if p = lit ''mods/bad.jar'' then Inl BadZipFile
                        else Inl (OtherException (lit ''No such file or directory''))) \<rparr>"

definition example_scanner :: ModScanner where
  "example_scanner = new_scanner example_runtime 4 None"

section \<open>String literals\<close>

lemma ch_eq [simp]: "(ch a = ch b) = (a = b)"
  by (simp add: ch_def)

lemma lit_eq [simp]: "(lit a = lit b) = (a = b)"
  by (simp add: lit_def inj_on_def inj_map_eq_map)

lemma lit_empty [simp]: "(lit a = []) = (a = [])"
  by (simp add: lit_def)

lemma lit_append: "lit (a @ b) = lit a @ lit b"
  by (simp add: lit_def)

lemma lit_join: "lit a @ lit b = lit (a @ b)"
  by (simp add: lit_def)

section \<open>The matcher against the denotation\<close>










section \<open>What the version patterns capture\<close>























lemma parse_constraint_string_sorted:
  "sorted (parse_constraint_string rt s) \<and> distinct (parse_constraint_string rt s)"
  by (simp add: parse_constraint_string_def)


lemma parse_mc_versions_string:
  "parse_mc_versions rt (PStr s) = (if s = [] then [] else parse_constraint_string rt s)"
  by (subst parse_mc_versions.simps) simp

lemma parse_mc_versions_list:
  "parse_mc_versions rt (PList items) =
     (if items = [] then [] else set_iter rt (concat (map (parse_mc_versions rt) items)))"
  by (subst parse_mc_versions.simps) simp

lemma parse_mc_versions_other:
  "parse_mc_versions rt PNone = []"
  "parse_mc_versions rt (PBool b) = []"
  "parse_mc_versions rt (PInt i) = []"
  "parse_mc_versions rt (PFloat f) = []"
  "parse_mc_versions rt (PDict d) = []"
  "parse_mc_versions rt (PDate t) = []"
  by (subst parse_mc_versions.simps, simp)+

lemma parse_constraint_string_empty: "parse_constraint_string rt [] = []"
  by code_simp


section \<open>The version-constraint parser: the claims\<close>

lemma parse_mc_versions_list_distinct:
  "set_iter_ok rt \<Longrightarrow> distinct (parse_mc_versions rt (PList items))"
  by (simp add: parse_mc_versions_list set_iter_ok_def)

lemma parse_mc_versions_list_union:
  "set_iter_ok rt \<Longrightarrow>
     set (parse_mc_versions rt (PList items)) = (\<Union>item \<in> set items. set (parse_mc_versions rt item))"
  by (simp add: parse_mc_versions_list set_iter_ok_def)

lemma parse_mc_versions_string_sorted:
  "sorted (parse_mc_versions rt (PStr s)) \<and> distinct (parse_mc_versions rt (PStr s))"
  by (simp add: parse_mc_versions_string parse_constraint_string_sorted)






text \<open>
  C2 (the code does not do what the claim says): a string is returned sorted and without
  duplicates, but a list is returned as \<open>list(set(versions))\<close>, in the iteration order
  of the set. Where that order is the order of insertion, the list
  \<open>["1.20", "1.19"]\<close> comes back as \<open>["1.20", "1.19"]\<close>, which is not sorted.
\<close>

theorem list_input_not_sorted:
  "parse_mc_versions example_runtime (PList [PStr (lit ''1.20''), PStr (lit ''1.19'')]) = [lit ''1.20'', lit ''1.19'']
   \<and> \<not> sorted (parse_mc_versions example_runtime (PList [PStr (lit ''1.20''), PStr (lit ''1.19'')]))"
proof -
  have a: "parse_constraint_string example_runtime (lit ''1.20'') = [lit ''1.20'']"
    by code_simp
  have b: "parse_constraint_string example_runtime (lit ''1.19'') = [lit ''1.19'']"
    by code_simp
  have c: "parse_mc_versions example_runtime (PList [PStr (lit ''1.20''), PStr (lit ''1.19'')]) = [lit ''1.20'', lit ''1.19'']"
    by (simp add: parse_mc_versions_list parse_mc_versions_string a b)
       (simp add: example_runtime_def)
  have d: "\<not> sorted [lit ''1.20'', lit ''1.19'']"
    by code_simp
  from c d show ?thesis
    by simp
qed



text \<open>
  C5: the point values of the parser. For the list input the result is read as a set, the
  iteration order of \<open>list(set(...))\<close> being left open; null, empty and every input that is
  neither a string nor a list give the empty result.
\<close>

theorem parse_point_values:
  assumes "set_iter_ok rt"
  shows "parse_mc_versions rt (PStr (lit ''1.20.x'')) = [lit ''1.20'']
       \<and> parse_mc_versions rt (PStr (lit ''>=1.20 <1.21'')) = [lit ''1.20'', lit ''1.21'']
       \<and> set (parse_mc_versions rt (PList [PStr (lit ''1.19''), PStr (lit ''1.20'')])) = {lit ''1.19'', lit ''1.20''}
       \<and> parse_mc_versions rt PNone = []
       \<and> parse_mc_versions rt (PStr []) = []
       \<and> parse_mc_versions rt (PList []) = []
       \<and> parse_mc_versions rt (PBool b) = []
       \<and> parse_mc_versions rt (PInt i) = []
       \<and> parse_mc_versions rt (PFloat f) = []
       \<and> parse_mc_versions rt (PDict d) = []
       \<and> parse_mc_versions rt (PDate t) = []"
proof -
  have a: "parse_constraint_string rt (lit ''1.20.x'') = [lit ''1.20'']"
    by code_simp
  have b: "parse_constraint_string rt (lit ''>=1.20 <1.21'') = [lit ''1.20'', lit ''1.21'']"
    by code_simp
  have c: "parse_constraint_string rt (lit ''1.19'') = [lit ''1.19'']"
    by code_simp
  have d: "parse_constraint_string rt (lit ''1.20'') = [lit ''1.20'']"
    by code_simp
  have l: "set (parse_mc_versions rt (PList [PStr (lit ''1.19''), PStr (lit ''1.20'')])) = {lit ''1.19'', lit ''1.20''}"
    using assms by (auto simp: parse_mc_versions_list_union parse_mc_versions_string c d)
  have e: "parse_mc_versions rt (PList []) = []"
    by (simp add: parse_mc_versions_list)
  show ?thesis
    by (simp add: parse_mc_versions_string parse_mc_versions_other a b l e)
qed

lemma example_set_iter_ok: "set_iter_ok example_runtime"
  by (simp add: set_iter_ok_def example_runtime_def)

theorem parse_point_values_witness:
  "parse_mc_versions example_runtime (PStr (lit ''1.20.x'')) = [lit ''1.20'']
   \<and> parse_mc_versions example_runtime (PStr (lit ''>=1.20 <1.21'')) = [lit ''1.20'', lit ''1.21'']
   \<and> set (parse_mc_versions example_runtime (PList [PStr (lit ''1.19''), PStr (lit ''1.20'')])) = {lit ''1.19'', lit ''1.20''}
   \<and> parse_mc_versions example_runtime PNone = []
   \<and> parse_mc_versions example_runtime (PDict [(lit ''a'', PInt 1)]) = []"
  using parse_point_values[OF example_set_iter_ok, of True 1 "''1.5''" "[(lit ''a'', PInt 1)]" "''t''"]
  by simp

section \<open>The extractor loop and the collecting loop\<close>

lemma mark_disabled_update: "mark_disabled m = m\<lparr>disabled := True\<rparr>"
  by (simp add: mark_disabled_def)

lemma try_extractors_skip:
  "\<forall>x \<in> set skipped. can_extract x j files = Inr False
        \<or> (can_extract x j files = Inr True \<and> extract_mod x j jar_path files = Inr None)
   \<Longrightarrow> try_extractors (skipped @ rest) j jar_path files dis
         = try_extractors rest j jar_path files dis"
  by (induction skipped) auto

lemma try_extractors_unclaimed:
  "\<forall>e \<in> set es. can_extract e j files = Inr False
   \<Longrightarrow> try_extractors es j jar_path files dis = Inr None"
  by (induction es) auto

lemma try_extractors_origin:
  "try_extractors es j jar_path files dis = Inr (Some r)
   \<Longrightarrow> \<exists>e \<in> set es. \<exists>m. can_extract e j files = Inr True
          \<and> extract_mod e j jar_path files = Inr (Some m)
          \<and> try_extractors es j jar_path files False = Inr (Some m)
          \<and> r = (if dis then mark_disabled m else m)"
  by (induction es) (auto split: sum.splits if_splits option.splits)

lemma try_extractors_none:
  "try_extractors es j jar_path files dis = Inr None
   \<Longrightarrow> try_extractors es j jar_path files dis' = Inr None"
  by (induction es) (auto split: sum.splits if_splits option.splits)

lemma collect_step:
  "report_progress progress_callback (Suc completed) n_files (path_name jar_path) = None
   \<Longrightarrow> task jar_path = (found_mod, found_error)
   \<Longrightarrow> collect task progress_callback n_files (jar_path # rest) completed result
         = collect task progress_callback n_files rest (Suc completed)
             (result\<lparr> mods := mods result @ (case found_mod of Some m \<Rightarrow> [m] | None \<Rightarrow> []),
                      errors := errors result
                         @ (case found_error of Some e \<Rightarrow> if e \<noteq> [] then [e] else []
                            | None \<Rightarrow> []) \<rparr>)"
  by (cases found_mod; cases found_error) (simp_all add: Let_def)

lemma collect_append:
  "collect task progress_callback n_files (xs @ ys) completed result
     = (case collect task progress_callback n_files xs completed result of
          Inl x \<Rightarrow> Inl x
        | Inr r1 \<Rightarrow> collect task progress_callback n_files ys (completed + length xs) r1)"
  by (induction xs arbitrary: completed result)
     (auto simp: Let_def split: option.splits sum.splits)

lemma collect_quiet:
  "never_raises progress_callback
   \<Longrightarrow> \<exists>res. collect task progress_callback n_files ps completed result = Inr res"
  by (induction ps arbitrary: completed result) (simp_all add: Let_def never_raises_def)

lemma collect_total_files:
  "collect task progress_callback n_files ps completed result = Inr res
   \<Longrightarrow> total_files res = total_files result"
proof (induction ps arbitrary: completed result)
  case Nil
  then show ?case
    by simp
next
  case (Cons p ps)
  from Cons.prems show ?case
    by (auto simp: Let_def split: option.splits if_splits dest!: Cons.IH)
qed

lemma collect_mods_length:
  "collect task progress_callback n_files ps completed result = Inr res
   \<Longrightarrow> length (mods res)
         = length (mods result) + length (filter (\<lambda>p. fst (task p) \<noteq> None) ps)"
proof (induction ps arbitrary: completed result)
  case Nil
  then show ?case
    by simp
next
  case (Cons p ps)
  from Cons.prems show ?case
    by (auto simp: Let_def split: option.splits if_splits dest!: Cons.IH)
qed

lemma collect_errors_length:
  "collect task progress_callback n_files ps completed result = Inr res
   \<Longrightarrow> length (errors res)
         = length (errors result)
           + length (filter (\<lambda>p. \<exists>e. snd (task p) = Some e \<and> e \<noteq> []) ps)"
proof (induction ps arbitrary: completed result)
  case Nil
  then show ?case
    by simp
next
  case (Cons p ps)
  from Cons.prems show ?case
    by (auto simp: Let_def split: option.splits if_splits dest!: Cons.IH)
qed

lemma filter_cover:
  "\<forall>p \<in> set ps. P p \<or> Q p \<Longrightarrow> length ps \<le> length (filter P ps) + length (filter Q ps)"
  by (induction ps) auto

lemma as_completed_length: "as_completed_ok rt \<Longrightarrow> length (as_completed rt ps) = length ps"
  unfolding as_completed_ok_def by (metis size_mset)

lemma as_completed_empty: "as_completed_ok rt \<Longrightarrow> as_completed rt ps \<noteq> [] \<Longrightarrow> ps \<noteq> []"
  using as_completed_length[of rt ps] by auto

section \<open>The outcomes of inspecting one archive\<close>

lemma extract_single_mod_unreadable:
  "zip_open fs jar_path = Inl x \<Longrightarrow>
     extract_single_mod rt fs sc jar_path dis =
       (None, Some (case x of
                      BadZipFile \<Rightarrow> lit ''Invalid or corrupted JAR file: '' @ path_name jar_path
                    | OtherException msg \<Rightarrow> lit ''Failed to process '' @ path_name jar_path @ lit '': '' @ msg))"
  by (simp add: extract_single_mod_def inspect_archive_def split: exn.splits)

lemma extract_single_mod_record:
  "zip_open fs jar_path = Inr j
   \<Longrightarrow> try_extractors (extractors sc) j jar_path (namelist j) dis = Inr (Some r)
   \<Longrightarrow> extract_single_mod rt fs sc jar_path dis = (Some r, None)"
  by (simp add: extract_single_mod_def inspect_archive_def)

lemma extract_single_mod_fallback:
  "zip_open fs jar_path = Inr j
   \<Longrightarrow> try_extractors (extractors sc) j jar_path (namelist j) dis = Inr None
   \<Longrightarrow> fallback_extraction rt j jar_path (namelist j) = Some m
   \<Longrightarrow> extract_single_mod rt fs sc jar_path dis
         = (Some (if dis then mark_disabled m else m), None)"
  by (simp add: extract_single_mod_def inspect_archive_def)

lemma extract_single_mod_synthesized:
  "zip_open fs jar_path = Inr j
   \<Longrightarrow> try_extractors (extractors sc) j jar_path (namelist j) dis = Inr None
   \<Longrightarrow> fallback_extraction rt j jar_path (namelist j) = None
   \<Longrightarrow> extract_single_mod rt fs sc jar_path dis
         = (Some \<lparr> name = PStr (path_stem jar_path), loader = lit ''unknown'',
                   version = PStr (lit ''Unknown''), filename = path_name jar_path, mod_id = PNone,
                   dependencies = [], author = None, description = None, mc_versions = [],
                   disabled = dis \<rparr>,
            Some (lit ''No mod metadata found in '' @ path_name jar_path))"
  by (simp add: extract_single_mod_def inspect_archive_def)

lemma extract_single_mod_some:
  "extract_single_mod rt fs sc jar_path dis \<noteq> (None, None)"
  by (auto simp: extract_single_mod_def inspect_archive_def Let_def
           split: sum.splits exn.splits option.splits)

lemma extract_single_mod_error:
  "snd (extract_single_mod rt fs sc jar_path dis) \<noteq> Some []"
  by (auto simp: extract_single_mod_def inspect_archive_def Let_def
           split: sum.splits exn.splits option.splits)

lemma extract_single_mod_cover:
  "fst (extract_single_mod rt fs sc jar_path dis) \<noteq> None
   \<or> (\<exists>e. snd (extract_single_mod rt fs sc jar_path dis) = Some e \<and> e \<noteq> [])"
  using extract_single_mod_some[of rt fs sc jar_path dis]
        extract_single_mod_error[of rt fs sc jar_path dis]
  by (cases "extract_single_mod rt fs sc jar_path dis") auto

lemma sublist_middle: "sublist n (a @ n @ b)"
  by (auto simp: sublist_def)

lemma sublist_tail: "sublist n (a @ n)"
  using sublist_middle[of n a "[]"] by simp

lemma sorted_priorities: "sorted (map priority (extractors (new_scanner rt n given)))"
  by (simp add: new_scanner_def)

lemma default_extractors:
  "extractors (new_scanner rt n None)
     = [FabricExtractor rt, QuiltExtractor rt, ForgeTomlExtractor rt, LegacyForgeExtractor rt]"
  by (simp add: new_scanner_def ALL_EXTRACTORS_def FabricExtractor_def QuiltExtractor_def
        ForgeTomlExtractor_def LegacyForgeExtractor_def)

section \<open>The set-up and the result of a scan\<close>

lemma scan_folder_found:
  "path_exists fs folder_path \<Longrightarrow> is_dir fs folder_path
   \<Longrightarrow> discover fs folder_path recursive exclude_patterns include_disabled
         = Inr (all_files, disabled_files)
   \<Longrightarrow> all_files \<noteq> []
   \<Longrightarrow> 0 < workers sc
   \<Longrightarrow> collect (\<lambda>jar_path. extract_single_mod rt fs sc jar_path (jar_path \<in> set disabled_files))
         progress_callback (length all_files) (as_completed rt all_files) 0
         \<lparr> mods = [], errors = [], total_files = length all_files \<rparr> = Inr res
   \<Longrightarrow> scan_folder rt fs sc folder_path recursive exclude_patterns include_disabled
         progress_callback
         = (all_files, Inr res)"
  by (simp add: scan_folder_def)

lemma scan_folder_completed:
  "scan_folder rt fs sc folder_path recursive exclude_patterns include_disabled progress_callback
     = (submitted, Inr res)
   \<Longrightarrow> (submitted = [] \<and> res = \<lparr> mods = [], errors = [], total_files = 0 \<rparr>)
       \<or> (\<exists>disabled_files.
             collect (\<lambda>jar_path. extract_single_mod rt fs sc jar_path
                                         (jar_path \<in> set disabled_files))
               progress_callback (length submitted) (as_completed rt submitted) 0
               \<lparr> mods = [], errors = [], total_files = length submitted \<rparr> = Inr res)"
  by (auto simp: scan_folder_def split: if_splits sum.splits prod.splits)

section \<open>The scanner: the claims\<close>

text \<open>
  C1 (the claim as written does not hold): the first extractor that claims an archive is
  not final. In the archive \<open>both.jar\<close> the Fabric extractor claims the archive and its
  \<open>extract\<close> returns no record (the \<open>fabric.mod.json\<close> is no JSON); the loop goes on, and
  the record of the scan comes from the Quilt extractor.
\<close>

theorem first_claimant_not_final:
  "can_extract (FabricExtractor example_runtime) both_jar (namelist both_jar) = Inr True
   \<and> extract_mod (FabricExtractor example_runtime) both_jar (lit ''mods/both.jar'') (namelist both_jar)
       = Inr None
   \<and> zip_open example_fs (lit ''mods/both.jar'') = Inr both_jar
   \<and> map extractor_name (extractors example_scanner)
       = [lit ''Fabric'', lit ''Quilt'', lit ''Forge/NeoForge TOML'', lit ''Legacy Forge'']
   \<and> map_option loader
         (fst (extract_single_mod example_runtime example_fs example_scanner (lit ''mods/both.jar'') False))
       = Some (lit ''quilt'')"
proof -
  have a: "can_extract (FabricExtractor example_runtime) both_jar (namelist both_jar) = Inr True"
    by code_simp
  have b: "extract_mod (FabricExtractor example_runtime) both_jar (lit ''mods/both.jar'') (namelist both_jar)
             = Inr None"
    by code_simp
  have c: "zip_open example_fs (lit ''mods/both.jar'') = Inr both_jar"
    by (simp add: example_fs_def)
  have d: "map extractor_name (extractors example_scanner)
             = [lit ''Fabric'', lit ''Quilt'', lit ''Forge/NeoForge TOML'', lit ''Legacy Forge'']"
    by code_simp
  have e: "map_option loader
             (fst (extract_single_mod example_runtime example_fs example_scanner (lit ''mods/both.jar'') False))
           = Some (lit ''quilt'')"
    by code_simp
  from a b c d e show ?thesis
    by simp
qed

text \<open>
  C1, amended: the extractors are tried in ascending order of priority (Fabric 1, Quilt 2,
  Forge TOML 3, legacy Forge 4 when none are given); an extractor that does not claim the
  archive, or that claims it and returns no record, is passed over; the first extractor
  that claims the archive and returns a record decides the result. For an archive with a
  \<open>fabric.mod.json\<close> the record of the Fabric extractor is the result whenever it returns
  one, whatever else the archive holds.
\<close>

theorem first_record_decides:
  assumes opened: "zip_open fs jar_path = Inr j"
    and order: "extractors sc = skipped @ e # rest"
    and passed: "\<forall>x \<in> set skipped. can_extract x j (namelist j) = Inr False
                   \<or> (can_extract x j (namelist j) = Inr True
                       \<and> extract_mod x j jar_path (namelist j) = Inr None)"
    and claims: "can_extract e j (namelist j) = Inr True"
    and gives: "extract_mod e j jar_path (namelist j) = Inr (Some m)"
  shows "extract_single_mod rt fs sc jar_path dis = (Some (if dis then mark_disabled m else m), None)
       \<and> sorted (map priority (extractors (new_scanner rt n given)))
       \<and> map priority (extractors (new_scanner rt n None)) = [1, 2, 3, 4]
       \<and> map extractor_name (extractors (new_scanner rt n None))
           = [lit ''Fabric'', lit ''Quilt'', lit ''Forge/NeoForge TOML'', lit ''Legacy Forge'']
       \<and> (lit ''fabric.mod.json'' \<in> set (namelist j)
            \<and> fabric_extract rt j jar_path (namelist j) = Some fm
          \<longrightarrow> extract_single_mod rt fs (new_scanner rt n None) jar_path dis
                = (Some (if dis then mark_disabled fm else fm), None))"
proof -
  have "try_extractors (extractors sc) j jar_path (namelist j) dis
          = try_extractors (e # rest) j jar_path (namelist j) dis"
    unfolding order using passed by (rule try_extractors_skip)
  also have "\<dots> = Inr (Some (if dis then mark_disabled m else m))"
    using claims gives by simp
  finally have first: "extract_single_mod rt fs sc jar_path dis
                         = (Some (if dis then mark_disabled m else m), None)"
    using opened by (simp add: extract_single_mod_record)
  have prios: "map priority (extractors (new_scanner rt n None)) = [1, 2, 3, 4]"
    by (simp add: default_extractors FabricExtractor_def QuiltExtractor_def
          ForgeTomlExtractor_def LegacyForgeExtractor_def)
  have names: "map extractor_name (extractors (new_scanner rt n None))
                 = [lit ''Fabric'', lit ''Quilt'', lit ''Forge/NeoForge TOML'', lit ''Legacy Forge'']"
    by (simp add: default_extractors FabricExtractor_def QuiltExtractor_def
          ForgeTomlExtractor_def LegacyForgeExtractor_def)
  have fabric: "extract_single_mod rt fs (new_scanner rt n None) jar_path dis
                  = (Some (if dis then mark_disabled fm else fm), None)"
    if "lit ''fabric.mod.json'' \<in> set (namelist j)"
      and "fabric_extract rt j jar_path (namelist j) = Some fm"
  proof -
    have "try_extractors (extractors (new_scanner rt n None)) j jar_path (namelist j) dis
            = Inr (Some (if dis then mark_disabled fm else fm))"
      using that by (simp add: default_extractors) (simp add: FabricExtractor_def)
    with opened show ?thesis
      by (simp add: extract_single_mod_record)
  qed
  from first prios names fabric show ?thesis
    by (simp add: sorted_priorities)
qed

theorem first_record_decides_witness:
  "map_option loader
      (fst (extract_single_mod example_runtime example_fs example_scanner (lit ''mods/both.jar'') True))
     = Some (lit ''quilt'')
   \<and> map_option disabled
      (fst (extract_single_mod example_runtime example_fs example_scanner (lit ''mods/both.jar'') True))
     = Some True
   \<and> map_option loader
      (fst (extract_single_mod example_runtime example_fs example_scanner (lit ''mods/twin.jar'') False))
     = Some (lit ''fabric'')
   \<and> snd (extract_single_mod example_runtime example_fs example_scanner (lit ''mods/twin.jar'') False)
     = None"
proof -
  have sc: "extractors example_scanner
              = [FabricExtractor example_runtime] @ QuiltExtractor example_runtime
                  # [ForgeTomlExtractor example_runtime, LegacyForgeExtractor example_runtime]"
    by (simp add: example_scanner_def default_extractors)
  have sc': "extractors example_scanner
              = [] @ FabricExtractor example_runtime
                  # [QuiltExtractor example_runtime, ForgeTomlExtractor example_runtime,
                     LegacyForgeExtractor example_runtime]"
    by (simp add: example_scanner_def default_extractors)
  have o1: "zip_open example_fs (lit ''mods/both.jar'') = Inr both_jar"
    by (simp add: example_fs_def)
  have o2: "zip_open example_fs (lit ''mods/twin.jar'') = Inr twin_jar"
    by (simp add: example_fs_def)
  have p1: "\<forall>x \<in> set [FabricExtractor example_runtime].
              can_extract x both_jar (namelist both_jar) = Inr False
              \<or> (can_extract x both_jar (namelist both_jar) = Inr True
                  \<and> extract_mod x both_jar (lit ''mods/both.jar'') (namelist both_jar) = Inr None)"
    by code_simp
  have c1: "can_extract (QuiltExtractor example_runtime) both_jar (namelist both_jar) = Inr True"
    by code_simp
  have g1: "extract_mod (QuiltExtractor example_runtime) both_jar (lit ''mods/both.jar'') (namelist both_jar)
              = Inr (Some \<lparr> name = PStr (lit ''both''), loader = lit ''quilt'', version = PStr (lit ''Unknown''),
                            filename = lit ''both.jar'', mod_id = PStr [], dependencies = [],
                            author = None, description = None, mc_versions = [],
                            disabled = False \<rparr>)"
    by code_simp
  have p2: "\<forall>x \<in> set []. can_extract x twin_jar (namelist twin_jar) = Inr False
              \<or> (can_extract x twin_jar (namelist twin_jar) = Inr True
                  \<and> extract_mod x twin_jar (lit ''mods/twin.jar'') (namelist twin_jar) = Inr None)"
    by simp
  have c2: "can_extract (FabricExtractor example_runtime) twin_jar (namelist twin_jar) = Inr True"
    by code_simp
  have f2: "fabric_extract example_runtime twin_jar (lit ''mods/twin.jar'') (namelist twin_jar)
              = Some \<lparr> name = PStr (lit ''twin''), loader = lit ''fabric'', version = PStr (lit ''Unknown''),
                       filename = lit ''twin.jar'', mod_id = PStr [], dependencies = [],
                       author = None, description = None, mc_versions = [],
                       disabled = False \<rparr>"
    by code_simp
  have g2: "extract_mod (FabricExtractor example_runtime) twin_jar (lit ''mods/twin.jar'') (namelist twin_jar)
              = Inr (Some \<lparr> name = PStr (lit ''twin''), loader = lit ''fabric'', version = PStr (lit ''Unknown''),
                            filename = lit ''twin.jar'', mod_id = PStr [], dependencies = [],
                            author = None, description = None, mc_versions = [],
                            disabled = False \<rparr>)"
    by (simp add: FabricExtractor_def f2)
  have m2: "lit ''fabric.mod.json'' \<in> set (namelist twin_jar)"
    by (simp add: twin_jar_def)
  note one = first_record_decides[OF o1 sc p1 c1 g1, of example_runtime True 4 None]
  note two = first_record_decides[OF o2 sc' p2 c2 g2, of example_runtime False 4 None]
  from one two f2 m2 show ?thesis
    by (simp add: mark_disabled_def example_scanner_def)
qed

text \<open>
  C3: for an archive flagged as disabled whose inspection gives a record and no error,
  that record is the record \<open>m\<close> of one of the extractors or of the manifest fallback (the one
  inspection gives for the same archive when it is not flagged), with \<open>disabled\<close> set; every
  other field is that of \<open>m\<close>.
\<close>

theorem disabled_flag_frame:
  assumes opened: "zip_open fs jar_path = Inr j"
    and flagged: "extract_single_mod rt fs sc jar_path True = (Some r, None)"
  shows "\<exists>m. ((\<exists>e \<in> set (extractors sc). extract_mod e j jar_path (namelist j) = Inr (Some m))
              \<or> fallback_extraction rt j jar_path (namelist j) = Some m)
           \<and> extract_single_mod rt fs sc jar_path False = (Some m, None)
           \<and> r = m\<lparr>disabled := True\<rparr>
           \<and> disabled r
           \<and> name r = name m \<and> loader r = loader m \<and> version r = version m
           \<and> filename r = filename m \<and> mod_id r = mod_id m
           \<and> dependencies r = dependencies m \<and> author r = author m
           \<and> description r = description m \<and> mc_versions r = mc_versions m"
proof (cases "try_extractors (extractors sc) j jar_path (namelist j) True")
  case (Inl x)
  with opened flagged show ?thesis
    by (simp add: extract_single_mod_def inspect_archive_def split: exn.splits)
next
  case (Inr found)
  show ?thesis
  proof (cases found)
    case (Some r')
    with Inr opened flagged have "r' = r"
      by (simp add: extract_single_mod_record)
    with Inr Some obtain e m where
      e: "e \<in> set (extractors sc)" "extract_mod e j jar_path (namelist j) = Inr (Some m)"
      and plain: "try_extractors (extractors sc) j jar_path (namelist j) False = Inr (Some m)"
      and r: "r = mark_disabled m"
      using try_extractors_origin[of "extractors sc" j jar_path "namelist j" True r] by auto
    from plain opened have "extract_single_mod rt fs sc jar_path False = (Some m, None)"
      by (simp add: extract_single_mod_record)
    with e r show ?thesis
      by (intro exI[of _ m]) (auto simp: mark_disabled_def)
  next
    case None
    with Inr have none: "try_extractors (extractors sc) j jar_path (namelist j) True = Inr None"
      by simp
    then have none': "try_extractors (extractors sc) j jar_path (namelist j) False = Inr None"
      by (rule try_extractors_none)
    show ?thesis
    proof (cases "fallback_extraction rt j jar_path (namelist j)")
      case None
      with none opened flagged show ?thesis
        by (simp add: extract_single_mod_synthesized)
    next
      case (Some m)
      with none opened flagged have r: "r = mark_disabled m"
        by (simp add: extract_single_mod_fallback)
      from Some none' opened have "extract_single_mod rt fs sc jar_path False = (Some m, None)"
        by (simp add: extract_single_mod_fallback)
      with Some r show ?thesis
        by (intro exI[of _ m]) (auto simp: mark_disabled_def)
    qed
  qed
qed

theorem disabled_flag_frame_witness:
  "\<exists>m. extract_single_mod example_runtime example_fs example_scanner (lit ''mods/neo.jar'') False
          = (Some m, None)
       \<and> extract_single_mod example_runtime example_fs example_scanner (lit ''mods/neo.jar'') True
          = (Some (m\<lparr>disabled := True\<rparr>), None)
       \<and> loader m = lit ''neoforge'' \<and> \<not> disabled m"
proof -
  have o: "zip_open example_fs (lit ''mods/neo.jar'') = Inr neo_jar"
    by (simp add: example_fs_def)
  have f: "extract_single_mod example_runtime example_fs example_scanner (lit ''mods/neo.jar'') True
             = (Some \<lparr> name = PStr (lit ''m''), loader = lit ''neoforge'', version = PStr (lit ''Unknown''),
                       filename = lit ''neo.jar'', mod_id = PStr (lit ''m''), dependencies = [],
                       author = None, description = None, mc_versions = [],
                       disabled = True \<rparr>, None)"
    by code_simp
  from disabled_flag_frame[OF o f] obtain m where
    m: "extract_single_mod example_runtime example_fs example_scanner (lit ''mods/neo.jar'') False
          = (Some m, None)"
    and r: "\<lparr> name = PStr (lit ''m''), loader = lit ''neoforge'', version = PStr (lit ''Unknown''),
              filename = lit ''neo.jar'', mod_id = PStr (lit ''m''), dependencies = [],
              author = None, description = None, mc_versions = [],
              disabled = True \<rparr> = m\<lparr>disabled := True\<rparr>"
    by blast
  have g: "extract_single_mod example_runtime example_fs example_scanner (lit ''mods/neo.jar'') False
             = (Some \<lparr> name = PStr (lit ''m''), loader = lit ''neoforge'', version = PStr (lit ''Unknown''),
                       filename = lit ''neo.jar'', mod_id = PStr (lit ''m''), dependencies = [],
                       author = None, description = None, mc_versions = [],
                       disabled = False \<rparr>, None)"
    by code_simp
  from m g have d: "loader m = lit ''neoforge'' \<and> \<not> disabled m"
    by auto
  from r f have "extract_single_mod example_runtime example_fs example_scanner (lit ''mods/neo.jar'') True
                   = (Some (m\<lparr>disabled := True\<rparr>), None)"
    by simp
  with m d show ?thesis
    by (intro exI[of _ m]) simp
qed

text \<open>
  C7: an archive that opens, that no extractor claims and whose manifest fallback gives
  nothing yields one record, with the loader \<open>unknown\<close>, the version \<open>Unknown\<close> and the
  stem of the file name as its name, together with one error that mentions the file name;
  the collecting loop (whose progress callback, if there is one, does not raise) appends
  both and goes on with the archives that remain.
\<close>

theorem no_metadata_archive:
  assumes opened: "zip_open fs jar_path = Inr j"
    and unclaimed: "\<forall>e \<in> set (extractors sc). can_extract e j (namelist j) = Inr False"
    and silent: "fallback_extraction rt j jar_path (namelist j) = None"
    and quiet: "never_raises progress_callback"
  shows "\<exists>r err.
           extract_single_mod rt fs sc jar_path (flag jar_path) = (Some r, Some err)
         \<and> loader r = lit ''unknown'' \<and> version r = PStr (lit ''Unknown'')
         \<and> name r = PStr (path_stem jar_path) \<and> filename r = path_name jar_path
         \<and> disabled r = flag jar_path
         \<and> err = lit ''No mod metadata found in '' @ path_name jar_path
         \<and> sublist (path_name jar_path) err
         \<and> collect (\<lambda>p. extract_single_mod rt fs sc p (flag p)) progress_callback n_files
               (jar_path # after) completed result
             = collect (\<lambda>p. extract_single_mod rt fs sc p (flag p)) progress_callback n_files
                 after (Suc completed)
                 (result\<lparr> mods := mods result @ [r], errors := errors result @ [err] \<rparr>)"
proof -
  let ?task = "\<lambda>p. extract_single_mod rt fs sc p (flag p)"
  define r where
    "r = \<lparr> name = PStr (path_stem jar_path), loader = lit ''unknown'',
            version = PStr (lit ''Unknown''), filename = path_name jar_path, mod_id = PNone,
            dependencies = [], author = None, description = None, mc_versions = [],
            disabled = flag jar_path \<rparr>"
  define err where "err = lit ''No mod metadata found in '' @ path_name jar_path"
  from unclaimed
  have none: "try_extractors (extractors sc) j jar_path (namelist j) (flag jar_path) = Inr None"
    by (rule try_extractors_unclaimed)
  have found: "?task jar_path = (Some r, Some err)"
    unfolding r_def err_def by (rule extract_single_mod_synthesized[OF opened none silent])
  have nonempty: "err \<noteq> []"
    by (simp add: err_def)
  from quiet
  have "report_progress progress_callback (Suc completed) n_files (path_name jar_path) = None"
    by (simp add: never_raises_def)
  from collect_step[where task = ?task and rest = after and result = result, OF this found]
    nonempty
  have step: "collect ?task progress_callback n_files (jar_path # after) completed result
                = collect ?task progress_callback n_files after (Suc completed)
                    (result\<lparr> mods := mods result @ [r], errors := errors result @ [err] \<rparr>)"
    by simp
  have mentions: "sublist (path_name jar_path) err"
    unfolding err_def by (rule sublist_tail)
  have fields: "loader r = lit ''unknown'' \<and> version r = PStr (lit ''Unknown'')
         \<and> name r = PStr (path_stem jar_path) \<and> filename r = path_name jar_path
         \<and> disabled r = flag jar_path"
    by (simp add: r_def)
  from found fields mentions step err_def show ?thesis
    by blast
qed

theorem no_metadata_archive_witness:
  "extract_single_mod example_runtime example_fs example_scanner (lit ''mods/plain.jar'') False
     = (Some \<lparr> name = PStr (lit ''plain''), loader = lit ''unknown'',
               version = PStr (lit ''Unknown''), filename = lit ''plain.jar'', mod_id = PNone,
               dependencies = [], author = None, description = None, mc_versions = [],
               disabled = False \<rparr>,
        Some (lit ''No mod metadata found in plain.jar''))
   \<and> sublist (lit ''plain.jar'') (lit ''No mod metadata found in plain.jar'')
   \<and> never_raises None"
proof -
  have o: "zip_open example_fs (lit ''mods/plain.jar'') = Inr plain_jar"
    by (simp add: example_fs_def)
  have u: "\<forall>e \<in> set (extractors example_scanner).
             can_extract e plain_jar (namelist plain_jar) = Inr False"
    by code_simp
  have n: "fallback_extraction example_runtime plain_jar (lit ''mods/plain.jar'') (namelist plain_jar)
             = None"
    by code_simp
  have q: "never_raises None"
    by (simp add: never_raises_def report_progress_def)
  have pn: "path_name (lit ''mods/plain.jar'') = lit ''plain.jar''"
    by code_simp
  from no_metadata_archive[OF o u n q, of "\<lambda>p. False"]
  obtain r err where
    f: "extract_single_mod example_runtime example_fs example_scanner (lit ''mods/plain.jar'') False
          = (Some r, Some err)"
    and e: "err = lit ''No mod metadata found in '' @ path_name (lit ''mods/plain.jar'')"
    and s: "sublist (path_name (lit ''mods/plain.jar'')) err"
    by blast
  have g: "extract_single_mod example_runtime example_fs example_scanner (lit ''mods/plain.jar'') False
     = (Some \<lparr> name = PStr (lit ''plain''), loader = lit ''unknown'',
               version = PStr (lit ''Unknown''), filename = lit ''plain.jar'', mod_id = PNone,
               dependencies = [], author = None, description = None, mc_versions = [],
               disabled = False \<rparr>,
        Some (lit ''No mod metadata found in plain.jar''))"
    by code_simp
  from s e pn have "sublist (lit ''plain.jar'') (lit ''No mod metadata found in plain.jar'')"
    by (simp add: lit_join)
  with g q show ?thesis
    by simp
qed

text \<open>
  C8: a candidate file that cannot be opened as an archive gives no record and one error,
  which mentions the file name, whether or not the file is flagged as disabled. The scan
  (with a positive number of workers, and a progress callback, if any, that does not raise)
  does not stop there: the loop that has collected \<open>r1\<close> from the archives that completed
  before appends that one error, adds no record, goes on with the archives that complete
  after, and the scan returns what it collects; the file counts in \<open>total_files\<close>.
\<close>

theorem unreadable_archive:
  assumes root: "path_exists fs folder_path" "is_dir fs folder_path"
    and found: "discover fs folder_path recursive exclude_patterns include_disabled
                  = Inr (all_files, disabled_files)"
    and pool: "0 < workers sc"
    and quiet: "never_raises progress_callback"
    and runtime: "as_completed_ok rt"
    and order: "as_completed rt all_files = before @ jar_path # after"
    and unreadable: "zip_open fs jar_path = Inl x"
  shows "\<exists>err r1 res.
           (\<forall>dis. extract_single_mod rt fs sc jar_path dis = (None, Some err))
         \<and> err \<noteq> [] \<and> sublist (path_name jar_path) err
         \<and> collect (\<lambda>p. extract_single_mod rt fs sc p (p \<in> set disabled_files))
               progress_callback (length all_files) before 0
               \<lparr> mods = [], errors = [], total_files = length all_files \<rparr> = Inr r1
         \<and> collect (\<lambda>p. extract_single_mod rt fs sc p (p \<in> set disabled_files))
               progress_callback (length all_files) after (Suc (length before))
               (r1\<lparr> errors := errors r1 @ [err] \<rparr>) = Inr res
         \<and> scan_folder rt fs sc folder_path recursive exclude_patterns include_disabled
               progress_callback
             = (all_files, Inr res)
         \<and> total_files res = length all_files
         \<and> length all_files = length before + 1 + length after"
proof -
  let ?task = "\<lambda>p. extract_single_mod rt fs sc p (p \<in> set disabled_files)"
  let ?r0 = "\<lparr> mods = [], errors = [], total_files = length all_files \<rparr>"
  let ?n = "length all_files"
  define err where
    "err = (case x of
              BadZipFile \<Rightarrow> lit ''Invalid or corrupted JAR file: '' @ path_name jar_path
            | OtherException msg \<Rightarrow>
                lit ''Failed to process '' @ path_name jar_path @ lit '': '' @ msg)"
  have single: "extract_single_mod rt fs sc jar_path dis = (None, Some err)" for dis
    unfolding err_def using unreadable by (rule extract_single_mod_unreadable)
  have nonempty: "err \<noteq> []"
    unfolding err_def by (cases x) simp_all
  have mentions: "sublist (path_name jar_path) err"
  proof (cases x)
    case BadZipFile
    with sublist_tail[of "path_name jar_path" "lit ''Invalid or corrupted JAR file: ''"]
    show ?thesis
      unfolding err_def by simp
  next
    case (OtherException msg)
    with sublist_middle[of "path_name jar_path" "lit ''Failed to process ''" "lit '': '' @ msg"]
    show ?thesis
      unfolding err_def by simp
  qed
  have some: "all_files \<noteq> []"
    using as_completed_empty[OF runtime, of all_files] order by simp
  from collect_quiet[OF quiet] obtain r1 where
    r1: "collect ?task progress_callback ?n before 0 ?r0 = Inr r1"
    by blast
  from collect_quiet[OF quiet] obtain res where
    res: "collect ?task progress_callback ?n after (Suc (length before))
            (r1\<lparr> errors := errors r1 @ [err] \<rparr>) = Inr res"
    by blast
  have task: "?task jar_path = (None, Some err)"
    by (rule single)
  from quiet
  have "report_progress progress_callback (Suc (length before)) ?n (path_name jar_path) = None"
    by (simp add: never_raises_def)
  from collect_step[where task = ?task and rest = after and result = r1, OF this task]
    nonempty res
  have step: "collect ?task progress_callback ?n (jar_path # after) (length before) r1 = Inr res"
    by simp
  have "collect ?task progress_callback ?n (as_completed rt all_files) 0 ?r0
          = collect ?task progress_callback ?n (jar_path # after) (0 + length before) r1"
    unfolding order by (simp only: collect_append r1 sum.case)
  with step have whole: "collect ?task progress_callback ?n (as_completed rt all_files) 0 ?r0
                           = Inr res"
    by simp
  have scan:
    "scan_folder rt fs sc folder_path recursive exclude_patterns include_disabled
       progress_callback
       = (all_files, Inr res)"
    using root found some pool whole by (rule scan_folder_found)
  from whole have total: "total_files res = length all_files"
    by (simp add: collect_total_files)
  from runtime have "length (as_completed rt all_files) = length all_files"
    by (rule as_completed_length)
  then have count: "length all_files = length before + 1 + length after"
    unfolding order by simp
  from single nonempty mentions r1 res scan total count show ?thesis
    by blast
qed

theorem unreadable_archive_witness:
  "extract_single_mod example_runtime example_fs example_scanner (lit ''mods/bad.jar'') False
     = (None, Some (lit ''Invalid or corrupted JAR file: bad.jar''))
   \<and> (\<exists>res. scan_folder example_runtime example_fs example_scanner (lit ''mods'') False [] False None
               = ([lit ''mods/both.jar'', lit ''mods/bad.jar'', lit ''mods/neo.jar'',
                   lit ''mods/plain.jar'', lit ''mods/twin.jar''], Inr res)
          \<and> total_files res = 5
          \<and> map filename (mods res)
              = [lit ''both.jar'', lit ''neo.jar'', lit ''plain.jar'', lit ''twin.jar'']
          \<and> errors res = [lit ''Invalid or corrupted JAR file: bad.jar'',
                           lit ''No mod metadata found in plain.jar''])"
proof -
  let ?files = "[lit ''mods/both.jar'', lit ''mods/bad.jar'', lit ''mods/neo.jar'',
                 lit ''mods/plain.jar'', lit ''mods/twin.jar'']"
  have r1: "path_exists example_fs (lit ''mods'')" and r2: "is_dir example_fs (lit ''mods'')"
    by (simp_all add: example_fs_def)
  have d: "discover example_fs (lit ''mods'') False [] False = Inr (?files, [])"
    by (simp add: discover_def find_files_def example_fs_def example_glob_def)
  have w: "0 < workers example_scanner"
    by (simp add: example_scanner_def new_scanner_def)
  have q: "never_raises None"
    by (simp add: never_raises_def report_progress_def)
  have a: "as_completed_ok example_runtime"
    by (simp add: as_completed_ok_def example_runtime_def)
  have o: "as_completed example_runtime ?files
             = [lit ''mods/both.jar''] @ lit ''mods/bad.jar''
                 # [lit ''mods/neo.jar'', lit ''mods/plain.jar'', lit ''mods/twin.jar'']"
    by (simp add: example_runtime_def)
  have u: "zip_open example_fs (lit ''mods/bad.jar'') = Inl BadZipFile"
    by (simp add: example_fs_def)
  from unreadable_archive[OF r1 r2 d w q a o u]
  obtain res where
    scan: "scan_folder example_runtime example_fs example_scanner (lit ''mods'') False [] False None
             = (?files, Inr res)"
    and total: "total_files res = length ?files"
    by blast
  have whole: "map_sum id (\<lambda>r. (map filename (mods r), errors r))
                 (snd (scan_folder example_runtime example_fs example_scanner (lit ''mods'')
                         False [] False None))
               = Inr ([lit ''both.jar'', lit ''neo.jar'', lit ''plain.jar'', lit ''twin.jar''],
                      [lit ''Invalid or corrupted JAR file: bad.jar'',
                       lit ''No mod metadata found in plain.jar''])"
    by code_simp
  have one: "extract_single_mod example_runtime example_fs example_scanner (lit ''mods/bad.jar'') False
               = (None, Some (lit ''Invalid or corrupted JAR file: bad.jar''))"
    by code_simp
  from whole scan
  have "map filename (mods res) = [lit ''both.jar'', lit ''neo.jar'', lit ''plain.jar'', lit ''twin.jar'']
      \<and> errors res = [lit ''Invalid or corrupted JAR file: bad.jar'',
                       lit ''No mod metadata found in plain.jar'']"
    by simp
  with one scan total show ?thesis
    by simp
qed

text \<open>
  C9: a root that does not exist makes the scan fail with \<open>FileNotFoundError\<close>, a root
  that is no directory with \<open>ValueError\<close>, and in both cases no archive has been submitted
  for inspection; when no candidate file remains, the scan returns a result with no
  record, no error and zero files.
\<close>

theorem scan_folder_setup:
  "(\<not> path_exists fs folder_path \<longrightarrow>
      scan_folder rt fs sc folder_path recursive exclude_patterns include_disabled
        progress_callback
        = ([], Inl (FileNotFoundError (lit ''Folder not found: '' @ folder_path))))
   \<and> (path_exists fs folder_path \<and> \<not> is_dir fs folder_path \<longrightarrow>
      scan_folder rt fs sc folder_path recursive exclude_patterns include_disabled
        progress_callback
        = ([], Inl (ValueError (lit ''Path is not a directory: '' @ folder_path))))
   \<and> (path_exists fs folder_path \<and> is_dir fs folder_path
        \<and> discover fs folder_path recursive exclude_patterns include_disabled
            = Inr ([], disabled_files) \<longrightarrow>
      scan_folder rt fs sc folder_path recursive exclude_patterns include_disabled
        progress_callback
        = ([], Inr \<lparr> mods = [], errors = [], total_files = 0 \<rparr>))"
  by (simp add: scan_folder_def)

theorem scan_folder_setup_witness:
  "scan_folder example_runtime example_fs example_scanner (lit ''nowhere'') False [] False None
     = ([], Inl (FileNotFoundError (lit ''Folder not found: nowhere'')))
   \<and> scan_folder example_runtime example_fs example_scanner (lit ''notes.txt'') False [] False None
     = ([], Inl (ValueError (lit ''Path is not a directory: notes.txt'')))
   \<and> scan_folder example_runtime example_fs example_scanner (lit ''empty'') False [] False None
     = ([], Inr \<lparr> mods = [], errors = [], total_files = 0 \<rparr>)"
proof -
  have a: "\<not> path_exists example_fs (lit ''nowhere'')"
    by (simp add: example_fs_def)
  have b: "path_exists example_fs (lit ''notes.txt'') \<and> \<not> is_dir example_fs (lit ''notes.txt'')"
    by (simp add: example_fs_def)
  have c: "path_exists example_fs (lit ''empty'') \<and> is_dir example_fs (lit ''empty'')
           \<and> discover example_fs (lit ''empty'') False [] False = Inr ([], [])"
    by (simp add: example_fs_def discover_def find_files_def example_glob_def)
  from a b c
    scan_folder_setup[of example_fs "lit ''nowhere''" example_runtime example_scanner False "[]" False None "[]"]
    scan_folder_setup[of example_fs "lit ''notes.txt''" example_runtime example_scanner False "[]" False None "[]"]
    scan_folder_setup[of example_fs "lit ''empty''" example_runtime example_scanner False "[]" False None "[]"]
  show ?thesis
    by (simp add: lit_join)
qed

text \<open>
  C10: inspecting a file gives a record, an error or both, and an error it gives is not
  empty; so in the result of every scan that completes, where \<open>total_files\<close> is the number
  of files submitted, there are at most that many records and at most that many errors,
  and together at least that many.
\<close>

theorem scan_counts:
  assumes runtime: "as_completed_ok rt"
    and completed: "scan_folder rt fs sc folder_path recursive exclude_patterns include_disabled
                      progress_callback
                      = (submitted, Inr res)"
  shows "total_files res = length submitted
       \<and> length (mods res) \<le> total_files res
       \<and> length (errors res) \<le> total_files res
       \<and> total_files res \<le> length (mods res) + length (errors res)
       \<and> extract_single_mod rt fs sc jar_path dis \<noteq> (None, None)
       \<and> snd (extract_single_mod rt fs sc jar_path dis) \<noteq> Some []"
proof -
  from completed consider
    (empty) "submitted = []" "res = \<lparr> mods = [], errors = [], total_files = 0 \<rparr>"
  | (scanned) disabled_files where
      "collect (\<lambda>jar_path. extract_single_mod rt fs sc jar_path (jar_path \<in> set disabled_files))
         progress_callback (length submitted) (as_completed rt submitted) 0
         \<lparr> mods = [], errors = [], total_files = length submitted \<rparr> = Inr res"
    using scan_folder_completed[of rt fs sc folder_path recursive exclude_patterns
            include_disabled progress_callback submitted res]
    by blast
  then have counts: "total_files res = length submitted
       \<and> length (mods res) \<le> total_files res
       \<and> length (errors res) \<le> total_files res
       \<and> total_files res \<le> length (mods res) + length (errors res)"
  proof cases
    case empty
    then show ?thesis
      by simp
  next
    case scanned
    let ?task = "\<lambda>jar_path. extract_single_mod rt fs sc jar_path (jar_path \<in> set disabled_files)"
    let ?ps = "as_completed rt submitted"
    let ?P = "\<lambda>p. fst (?task p) \<noteq> None"
    let ?Q = "\<lambda>p. \<exists>e. snd (?task p) = Some e \<and> e \<noteq> []"
    have n: "length ?ps = length submitted"
      using runtime by (rule as_completed_length)
    from scanned have t: "total_files res = length submitted"
      by (simp add: collect_total_files)
    from scanned have m: "length (mods res) = length (filter ?P ?ps)"
      by (simp add: collect_mods_length)
    from scanned have e: "length (errors res) = length (filter ?Q ?ps)"
      by (simp add: collect_errors_length)
    have "\<forall>p \<in> set ?ps. ?P p \<or> ?Q p"
      by (intro ballI extract_single_mod_cover)
    then have c: "length ?ps \<le> length (filter ?P ?ps) + length (filter ?Q ?ps)"
      by (rule filter_cover)
    have "length (filter ?P ?ps) \<le> length ?ps" "length (filter ?Q ?ps) \<le> length ?ps"
      by (rule length_filter_le)+
    with n t m e c show ?thesis
      by simp
  qed
  with extract_single_mod_some[of rt fs sc jar_path dis]
       extract_single_mod_error[of rt fs sc jar_path dis]
  show ?thesis
    by simp
qed

theorem scan_counts_witness:
  "as_completed_ok example_runtime
   \<and> (\<exists>res. snd (scan_folder example_runtime example_fs example_scanner (lit ''mods'')
                    False [] False None)
              = Inr res
          \<and> total_files res = 5 \<and> length (mods res) = 4 \<and> length (errors res) = 2
          \<and> length (mods res) \<le> total_files res
          \<and> length (errors res) \<le> total_files res
          \<and> total_files res \<le> length (mods res) + length (errors res))"
proof -
  have a: "as_completed_ok example_runtime"
    by (simp add: as_completed_ok_def example_runtime_def)
  have "map_sum id (\<lambda>r. (total_files r, length (mods r), length (errors r)))
          (snd (scan_folder example_runtime example_fs example_scanner (lit ''mods'')
                  False [] False None))
        = Inr (5, 4, 2)"
    by code_simp
  then obtain res where
    r: "snd (scan_folder example_runtime example_fs example_scanner (lit ''mods'')
               False [] False None) = Inr res"
    and c: "total_files res = 5 \<and> length (mods res) = 4 \<and> length (errors res) = 2"
    by (cases "snd (scan_folder example_runtime example_fs example_scanner (lit ''mods'')
                      False [] False None)") auto
  obtain submitted where
    s: "scan_folder example_runtime example_fs example_scanner (lit ''mods'') False [] False None
          = (submitted, Inr res)"
    using r by (cases "scan_folder example_runtime example_fs example_scanner (lit ''mods'')
                         False [] False None") auto
  from scan_counts[OF a s] c r a show ?thesis
    by simp
qed

section \<open>The Forge TOML extractor: the claim\<close>

text \<open>
  C6: when the entry list of an archive names \<open>META-INF/neoforge.mods.toml\<close>, that is
  the TOML file the extractor reads, \<open>_detect_loader\<close> answers \<open>neoforge\<close> for it whatever the
  parsed metadata holds, and every record the extractor returns for the archive has the
  loader \<open>neoforge\<close>.
\<close>

theorem neoforge_path_precedence:
  assumes listed: "lit ''META-INF/neoforge.mods.toml'' \<in> set files"
  shows "find_toml_file files = Some (lit ''META-INF/neoforge.mods.toml'')
       \<and> detect_loader rt (lit ''META-INF/neoforge.mods.toml'') data jar_path = Some (lit ''neoforge'')
       \<and> (forge_toml_extract rt j jar_path files = Some m \<longrightarrow> loader m = lit ''neoforge'')
       \<and> (extract_mod (ForgeTomlExtractor rt) j jar_path files = Inr (Some m)
            \<longrightarrow> loader m = lit ''neoforge'')"
proof -
  have found: "find_toml_file files = Some (lit ''META-INF/neoforge.mods.toml'')"
    using listed by (simp add: find_toml_file_def TOML_FILES_def)
  have "sublist (lit ''neoforge.mods.toml'') (lit ''META-INF/'' @ lit ''neoforge.mods.toml'')"
    by (rule sublist_tail)
  then have inside: "sublist (lit ''neoforge.mods.toml'') (lit ''META-INF/neoforge.mods.toml'')"
    by (simp add: lit_join)
  then have first: "detect_loader rt (lit ''META-INF/neoforge.mods.toml'') data jar_path = Some (lit ''neoforge'')"
    for rt data jar_path
    by (simp only: detect_loader_def if_True)
  have produced: "loader m = lit ''neoforge''" if "forge_toml_extract rt j jar_path files = Some m"
    using that unfolding forge_toml_extract_def found
    by (auto simp: first Let_def split: if_splits option.splits pv.splits bind_splits)
  have "extract_mod (ForgeTomlExtractor rt) j jar_path files
          = Inr (forge_toml_extract rt j jar_path files)"
    by (simp add: ForgeTomlExtractor_def)
  with found first produced show ?thesis
    by simp
qed

theorem neoforge_path_precedence_witness:
  "lit ''META-INF/neoforge.mods.toml'' \<in> set (namelist neo_jar)
   \<and> map_option (\<lambda>parse. parse (lit example_toml)) (toml_loads example_runtime)
       = Some (Some (PDict [(lit ''modLoader'', PStr (lit ''forge'')),
                            (lit ''mods'', PList [PDict [(lit ''modId'', PStr (lit ''m''))]])]))
   \<and> (\<exists>m. extract_mod (ForgeTomlExtractor example_runtime) neo_jar (lit ''mods/neo.jar'') (namelist neo_jar)
             = Inr (Some m)
          \<and> loader m = lit ''neoforge'')"
proof -
  have l: "lit ''META-INF/neoforge.mods.toml'' \<in> set (namelist neo_jar)"
    by (simp add: neo_jar_def)
  have t: "map_option (\<lambda>parse. parse (lit example_toml)) (toml_loads example_runtime)
             = Some (Some (PDict [(lit ''modLoader'', PStr (lit ''forge'')),
                                  (lit ''mods'', PList [PDict [(lit ''modId'', PStr (lit ''m''))]])]))"
    by (simp add: example_runtime_def)
  let ?m = "\<lparr> name = PStr (lit ''m''), loader = lit ''neoforge'', version = PStr (lit ''Unknown''),
              filename = lit ''neo.jar'', mod_id = PStr (lit ''m''), dependencies = [],
              author = None, description = None, mc_versions = [], disabled = False \<rparr>"
  have m: "extract_mod (ForgeTomlExtractor example_runtime) neo_jar (lit ''mods/neo.jar'') (namelist neo_jar)
             = Inr (Some ?m)"
    by code_simp
  from neoforge_path_precedence[OF l, where rt = example_runtime and data = "[]"
         and jar_path = "lit ''mods/neo.jar''" and j = neo_jar and m = ?m] m
  have "loader ?m = lit ''neoforge''"
    by blast
  with l t m show ?thesis
    by blast
qed

end
